theory Spec2Isabelle
  imports Complex_Main
begin

section \<open>Configuration (config/settings.py)\<close>

text \<open>
  The credentials are read from the environment with \<^verbatim>\<open>os.getenv\<close>, which gives
  \<^verbatim>\<open>None\<close> or a string. The client tests them by Python truthiness: \<^verbatim>\<open>None\<close> and the
  empty string are false.
\<close>

record settings =
  FPL_USERNAME :: "string option"
  FPL_PASSWORD :: "string option"
  SESSION_ID :: "string option"
  CSRF_TOKEN :: "string option"
  TEAM_ID :: "string option"

definition FPL_BASE_URL :: string where
  "FPL_BASE_URL = ''https://fantasy.premierleague.com/api''"

definition truthy :: "string option \<Rightarrow> bool" where
  "truthy v = (case v of None \<Rightarrow> False | Some s \<Rightarrow> s \<noteq> [])"

definition fmt :: "string option \<Rightarrow> string" where
  \<comment> \<open>how an f-string renders the value\<close>
  "fmt v = (case v of None \<Rightarrow> ''None'' | Some s \<Rightarrow> s)"

section \<open>The API client (services/fpl\_api.py)\<close>

subsection \<open>Connections, effects and the environment\<close>

text \<open>
  An \<^verbatim>\<open>aiohttp.ClientSession\<close> is a connection object with an identity and the default
  headers it was built with. Everything the client does to the outside world is appended
  to \<open>effects\<close>, oldest first: opening and closing a connection, sending a request,
  sleeping. The fields \<open>session\<close> and \<open>authenticated_session\<close> are the attributes of
  the Python object.
\<close>

record client_session =
  ident :: nat
  headers :: "(string \<times> string) list"

datatype event =
    Opened client_session
  | Closed nat
  | Sent string nat string
  | Slept int

record FPLAPI =
  session :: "client_session option"
  authenticated_session :: "client_session option"
  effects :: "event list"

text \<open>
  What a request can come to: a response with a status and a body (\<open>None\<close> when
  \<^verbatim>\<open>response.json()\<close> raises), \<^verbatim>\<open>asyncio.TimeoutError\<close>, or any other exception.
\<close>

datatype 'a http_outcome =
    Response nat "'a option"
  | Raises_Timeout
  | Raises_Other

text \<open>
  The environment answers the \<open>k\<close>-th request sent, and says for which connection
  identities the library's close and constructor raise.
\<close>

record 'a env =
  server :: "nat \<Rightarrow> 'a http_outcome"
  close_raises :: "nat \<Rightarrow> bool"
  open_raises :: "nat \<Rightarrow> bool"

fun is_sent :: "event \<Rightarrow> bool" where
  "is_sent (Sent _ _ _) = True"
| "is_sent _ = False"

definition requests_sent :: "FPLAPI \<Rightarrow> nat" where
  "requests_sent api = length (filter is_sent (effects api))"

definition fresh_ident :: "FPLAPI \<Rightarrow> nat" where
  \<comment> \<open>a connection is identified by the position of its opening in the effects\<close>
  "fresh_ident api = length (effects api)"

definition is_closed :: "FPLAPI \<Rightarrow> client_session \<Rightarrow> bool" where
  "is_closed api c = (Closed (ident c) \<in> set (drop (ident c) (effects api)))"

definition emit :: "event \<Rightarrow> FPLAPI \<Rightarrow> FPLAPI" where
  "emit e api = api\<lparr>effects := effects api @ [e]\<rparr>"

definition sleep :: "int \<Rightarrow> FPLAPI \<Rightarrow> FPLAPI" where
  "sleep seconds api = emit (Slept seconds) api"

definition ClientSession ::
  "'a env \<Rightarrow> (string \<times> string) list \<Rightarrow> FPLAPI \<Rightarrow> FPLAPI + client_session \<times> FPLAPI" where
  \<comment> \<open>\<^verbatim>\<open>aiohttp.ClientSession(timeout=..., connector=..., headers=hs)\<close>; \<open>Inl\<close> when it raises\<close>
  "ClientSession env hs api =
     (let c = \<lparr>ident = fresh_ident api, headers = hs\<rparr>
      in if open_raises env (ident c) then Inl api else Inr (c, emit (Opened c) api))"

definition close :: "'a env \<Rightarrow> client_session \<Rightarrow> FPLAPI \<Rightarrow> FPLAPI + FPLAPI" where
  \<comment> \<open>\<^verbatim>\<open>await c.close()\<close>; \<open>Inl\<close> when it raises\<close>
  "close env c api =
     (if close_raises env (ident c) then Inl api else Inr (emit (Closed (ident c)) api))"

definition send :: "'a env \<Rightarrow> string \<Rightarrow> client_session option \<Rightarrow> string \<Rightarrow> FPLAPI
    \<Rightarrow> 'a http_outcome \<times> FPLAPI" where
  \<comment> \<open>\<^verbatim>\<open>c.get(url)\<close> or \<^verbatim>\<open>c.post(url)\<close>: on \<^verbatim>\<open>None\<close> an AttributeError, on a closed
      connection a RuntimeError, and nothing is sent\<close>
  "send env verb conn url api =
     (case conn of
        None \<Rightarrow> (Raises_Other, api)
      | Some c \<Rightarrow>
          if is_closed api c then (Raises_Other, api)
          else (server env (requests_sent api), emit (Sent verb (ident c) url) api))"

fun http_status :: "'a http_outcome \<Rightarrow> nat option" where
  "http_status (Response status body) = Some status"
| "http_status _ = None"

definition init :: FPLAPI where
  "init = \<lparr>session = None, authenticated_session = None, effects = []\<rparr>"

definition aenter :: "'a env \<Rightarrow> FPLAPI \<Rightarrow> FPLAPI" where
  \<comment> \<open>\<^verbatim>\<open>__aenter__\<close>; an exception of the constructor leaves the client without a session\<close>
  "aenter env api =
     (case ClientSession env [(''User-Agent'', ''FPL-Bot/1.0'')] api of
        Inl api' \<Rightarrow> api'
      | Inr (c, api') \<Rightarrow> api'\<lparr>session := Some c\<rparr>)"

subsection \<open>\_authenticate\<close>

definition session_headers :: "settings \<Rightarrow> (string \<times> string) list" where
  "session_headers cfg =
     [(''User-Agent'', ''FPL-Bot/1.0''),
      (''Cookie'', ''sessionid='' @ fmt (SESSION_ID cfg) @ ''; csrftoken='' @ fmt (CSRF_TOKEN cfg)),
      (''X-CSRFToken'', fmt (CSRF_TOKEN cfg)),
      (''Referer'', ''https://fantasy.premierleague.com/'')]"

definition authenticate :: "'a env \<Rightarrow> settings \<Rightarrow> FPLAPI \<Rightarrow> bool \<times> FPLAPI" where
  "authenticate env cfg api =
     (case (case authenticated_session api of
              Some old \<Rightarrow> close env old api
            | None \<Rightarrow> Inr api) of
        Inl api1 \<Rightarrow> (False, api1)
      | Inr api1 \<Rightarrow>
          if truthy (SESSION_ID cfg) \<and> truthy (CSRF_TOKEN cfg) then
            (case ClientSession env (session_headers cfg) api1 of
               Inl api2 \<Rightarrow> (False, api2)
             | Inr (c, api2) \<Rightarrow> (True, api2\<lparr>authenticated_session := Some c\<rparr>))
          else if truthy (FPL_USERNAME cfg) \<and> truthy (FPL_PASSWORD cfg) then
            (case ClientSession env [(''User-Agent'', ''FPL-Bot/1.0'')] api1 of
               Inl api2 \<Rightarrow> (False, api2)
             | Inr (c, api2) \<Rightarrow> (True, api2\<lparr>authenticated_session := Some c\<rparr>))
          else (False, api1))"

subsection \<open>\_make\_request\_with\_retry\<close>

definition max_retries :: nat where
  "max_retries = 3"

definition upper_char :: "char \<Rightarrow> char" where
  "upper_char c =
     (let n = (of_char c :: nat) in if 97 \<le> n \<and> n \<le> 122 then char_of (n - 32) else c)"

definition upper :: "string \<Rightarrow> string" where
  \<comment> \<open>\<^verbatim>\<open>str.upper\<close> on ASCII text\<close>
  "upper s = map upper_char s"

text \<open>
  How the \<^verbatim>\<open>try\<close> block of one pass through the \<^verbatim>\<open>for\<close> loop ends: with an
  exception (\<open>Inl\<close>), or with \<^verbatim>\<open>return\<close> or \<^verbatim>\<open>continue\<close> (carrying the new delay).
\<close>

datatype exn = TimeoutError | Exception

datatype 'a control =
    Return "'a option"
  | Continue int

definition raised :: "'a http_outcome \<Rightarrow> exn + 'a control" where
  \<comment> \<open>only called on the two exceptions\<close>
  "raised r = (case r of Raises_Timeout \<Rightarrow> Inl TimeoutError | _ \<Rightarrow> Inl Exception)"

definition json :: "'a option \<Rightarrow> exn + 'a control" where
  \<comment> \<open>\<^verbatim>\<open>return await response.json()\<close>\<close>
  "json body = (case body of None \<Rightarrow> Inl Exception | Some doc \<Rightarrow> Inr (Return (Some doc)))"

definition backoff :: "nat \<Rightarrow> int \<Rightarrow> FPLAPI \<Rightarrow> 'a control \<times> FPLAPI" where
  \<comment> \<open>the \<^verbatim>\<open>if attempt < max_retries - 1: sleep; double; continue\<close> block, then
      \<^verbatim>\<open>return None\<close>\<close>
  "backoff attempt retry_delay api =
     (if attempt < max_retries - 1
      then (Continue (retry_delay * 2), sleep retry_delay api)
      else (Return None, api))"

definition rate_limited :: "int \<Rightarrow> FPLAPI \<Rightarrow> 'a control \<times> FPLAPI" where
  \<comment> \<open>the 429 branch: \<^verbatim>\<open>sleep(retry_delay * 2); retry_delay *= 2; continue\<close>\<close>
  "rate_limited retry_delay api = (Continue (retry_delay * 2), sleep (retry_delay * 2) api)"

definition normally :: "'a control \<times> FPLAPI \<Rightarrow> (exn + 'a control) \<times> FPLAPI" where
  "normally r = (Inr (fst r), snd r)"

definition session_to_use :: "FPLAPI \<Rightarrow> client_session option" where
  \<comment> \<open>the connection a POST goes out on\<close>
  "session_to_use api =
     (if authenticated_session api \<noteq> None then authenticated_session api else session api)"

definition try_block ::
  "'a env \<Rightarrow> settings \<Rightarrow> string \<Rightarrow> string \<Rightarrow> nat \<Rightarrow> int \<Rightarrow> FPLAPI
    \<Rightarrow> (exn + 'a control) \<times> FPLAPI" where
  "try_block env cfg url method attempt retry_delay api =
     (if upper method = ''GET'' then
        (case send env ''GET'' (session api) url api of
           (Response status body, api1) \<Rightarrow>
             if status = 200 then (json body, api1)
             else if status = 429 then normally (rate_limited retry_delay api1)
             else normally (backoff attempt retry_delay api1)
         | (r, api1) \<Rightarrow> (raised r, api1))
      else if upper method = ''POST'' then
        (case send env ''POST'' (session_to_use api) url api of
           (Response status body, api1) \<Rightarrow>
             if status = 200 then (json body, api1)
             else if status = 401 then
               (case authenticate env cfg api1 of
                  (True, api2) \<Rightarrow>
                    if authenticated_session api2 \<noteq> None then
                      (case send env ''POST'' (authenticated_session api2) url api2 of
                         (Response retry_status retry_body, api3) \<Rightarrow>
                           if retry_status = 200 then (json retry_body, api3)
                           else (Inr (Return None), api3)
                       | (r, api3) \<Rightarrow> (raised r, api3))
                    else (Inr (Return None), api2)
                | (False, api2) \<Rightarrow> (Inr (Return None), api2))
             else if status = 429 then normally (rate_limited retry_delay api1)
             else normally (backoff attempt retry_delay api1)
         | (r, api1) \<Rightarrow> (raised r, api1))
      else (Inr (Return None), api))"

definition attempt_body ::
  "'a env \<Rightarrow> settings \<Rightarrow> string \<Rightarrow> string \<Rightarrow> nat \<Rightarrow> int \<Rightarrow> FPLAPI \<Rightarrow> 'a control \<times> FPLAPI" where
  \<comment> \<open>the \<^verbatim>\<open>try\<close> statement with its two handlers\<close>
  "attempt_body env cfg url method attempt retry_delay api =
     (case try_block env cfg url method attempt retry_delay api of
        (Inl TimeoutError, api1) \<Rightarrow> backoff attempt retry_delay api1
      | (Inl Exception, api1) \<Rightarrow> backoff attempt retry_delay api1
      | (Inr c, api1) \<Rightarrow> (c, api1))"

fun retry_loop ::
  "'a env \<Rightarrow> settings \<Rightarrow> string \<Rightarrow> string \<Rightarrow> nat list \<Rightarrow> int \<Rightarrow> FPLAPI \<Rightarrow> 'a option \<times> FPLAPI" where
  "retry_loop env cfg url method [] retry_delay api = (None, api)"
| "retry_loop env cfg url method (attempt # rest) retry_delay api =
     (case attempt_body env cfg url method attempt retry_delay api of
        (Continue retry_delay', api1) \<Rightarrow> retry_loop env cfg url method rest retry_delay' api1
      | (Return result, api1) \<Rightarrow> (result, api1))"

definition make_request_with_retry ::
  "'a env \<Rightarrow> settings \<Rightarrow> string \<Rightarrow> string \<Rightarrow> FPLAPI \<Rightarrow> 'a option \<times> FPLAPI" where
  "make_request_with_retry env cfg url method api =
     (if session api = None then (None, api)
      else retry_loop env cfg url method [0..<max_retries] 1 api)"

text \<open>
  A logical request with the given method goes out on the open connection \<open>c\<close>: the client
  has entered its scope, and \<open>c\<close> is the connection the method selects.
\<close>

definition sends_on :: "string \<Rightarrow> FPLAPI \<Rightarrow> client_session \<Rightarrow> bool" where
  "sends_on method api c =
     (session api \<noteq> None \<and> \<not> is_closed api c \<and>
      (upper method = ''GET'' \<and> session api = Some c \<or>
       upper method = ''POST'' \<and> session_to_use api = Some c))"

subsection \<open>Example inputs\<close>

definition example_settings :: settings where
  "example_settings =
     \<lparr>FPL_USERNAME = None, FPL_PASSWORD = None, SESSION_ID = Some ''sid'',
      CSRF_TOKEN = Some ''tok'', TEAM_ID = Some ''1''\<rparr>"

definition always_429 :: "string env" where
  "always_429 =
     \<lparr>server = (\<lambda>k. Response 429 None), close_raises = (\<lambda>i. False),
      open_raises = (\<lambda>i. False)\<rparr>"

definition user_agent :: client_session where
  "user_agent = \<lparr>ident = 0, headers = [(''User-Agent'', ''FPL-Bot/1.0'')]\<rparr>"

definition entered :: FPLAPI where
  \<comment> \<open>the client right after \<^verbatim>\<open>__aenter__\<close>\<close>
  "entered =
     \<lparr>session = Some user_agent, authenticated_session = None,
      effects = [Opened user_agent]\<rparr>"

definition transient_failure :: "string \<Rightarrow> 'a http_outcome \<Rightarrow> bool" where
  \<comment> \<open>a timeout, a fault (also one while the body of a 200 is read), or a status other
      than 200 and 429, and other than 401 on a POST\<close>
  "transient_failure method r =
     (case r of
        Response status body \<Rightarrow>
          if status = 200 then body = None
          else status \<noteq> 429 \<and> \<not> (upper method = ''POST'' \<and> status = 401)
      | Raises_Timeout \<Rightarrow> True
      | Raises_Other \<Rightarrow> True)"

definition always_500 :: "string env" where
  "always_500 =
     \<lparr>server = (\<lambda>k. Response 500 None), close_raises = (\<lambda>i. False),
      open_raises = (\<lambda>i. False)\<rparr>"

definition unauthorized_then_timeout :: "string env" where
  \<comment> \<open>401 to the first request, a timeout of the second, 200 from then on\<close>
  "unauthorized_then_timeout =
     \<lparr>server = (\<lambda>k. if k = 0 then Response 401 None
                     else if k = 1 then Raises_Timeout
                     else Response 200 (Some ''ok'')),
      close_raises = (\<lambda>i. False), open_raises = (\<lambda>i. False)\<rparr>"

definition unauthorized_then_ok :: "string env" where
  \<comment> \<open>401 to the first request, 200 from then on\<close>
  "unauthorized_then_ok =
     \<lparr>server = (\<lambda>k. if k = 0 then Response 401 None else Response 200 (Some ''ok'')),
      close_raises = (\<lambda>i. False), open_raises = (\<lambda>i. False)\<rparr>"

definition both_configured :: settings where
  "both_configured =
     \<lparr>FPL_USERNAME = Some ''user'', FPL_PASSWORD = Some ''pw'', SESSION_ID = Some ''sid'',
      CSRF_TOKEN = Some ''tok'', TEAM_ID = Some ''1''\<rparr>"

definition cookie_session :: "nat \<Rightarrow> client_session" where
  "cookie_session i =
     \<lparr>ident = i,
      headers = [(''User-Agent'', ''FPL-Bot/1.0''),
                 (''Cookie'', ''sessionid=sid; csrftoken=tok''),
                 (''X-CSRFToken'', ''tok''),
                 (''Referer'', ''https://fantasy.premierleague.com/'')]\<rparr>"

definition authenticated :: FPLAPI where
  "authenticated =
     \<lparr>session = Some user_agent, authenticated_session = Some (cookie_session 1),
      effects = [Opened user_agent, Opened (cookie_session 1)]\<rparr>"

text \<open>
  The two steps of a re-authentication, as effects: the existing authenticated connection
  is closed (the attribute still refers to it), then a connection with the given headers
  is opened and stored.
\<close>

definition after_close :: "FPLAPI \<Rightarrow> FPLAPI" where
  "after_close api =
     (case authenticated_session api of
        None \<Rightarrow> api
      | Some old \<Rightarrow> emit (Closed (ident old)) api)"

definition after_open :: "(string \<times> string) list \<Rightarrow> FPLAPI \<Rightarrow> FPLAPI" where
  "after_open hs api =
     (let c = \<lparr>ident = length (effects api), headers = hs\<rparr>
      in (emit (Opened c) api)\<lparr>authenticated_session := Some c\<rparr>)"

text \<open>
  What the handlers do with an exception of the pass \<open>attempt\<close>: wait and go on to the
  remaining attempts, or return \<open>None\<close> on the last one.
\<close>

definition give_up :: "'a env \<Rightarrow> settings \<Rightarrow> string \<Rightarrow> string \<Rightarrow> nat \<Rightarrow> nat list \<Rightarrow> int
    \<Rightarrow> FPLAPI \<Rightarrow> 'a option \<times> FPLAPI" where
  "give_up env cfg url method attempt rest retry_delay api =
     (if attempt < max_retries - 1
      then retry_loop env cfg url method rest (retry_delay * 2) (sleep retry_delay api)
      else (None, api))"

definition transfers_url :: string where
  "transfers_url = FPL_BASE_URL @ ''/transfers/''"

definition reauthenticated :: FPLAPI where
  \<comment> \<open>the client after a POST on the plain connection and a re-authentication\<close>
  "reauthenticated =
     \<lparr>session = Some user_agent, authenticated_session = Some (cookie_session 2),
      effects = [Opened user_agent, Sent ''POST'' 0 transfers_url,
                 Opened (cookie_session 2)]\<rparr>"

section \<open>Python values\<close>

text \<open>
  The JSON documents and statistics dictionaries hold Python values. A float is a real
  number (rounding is not modelled), an infinity or NaN. A dictionary is a map from keys
  to values; \<^verbatim>\<open>d.get(k)\<close> gives \<^verbatim>\<open>None\<close> and \<^verbatim>\<open>d.get(k, v)\<close> gives \<open>v\<close> when the key is
  absent.
\<close>

datatype pyfloat = Finite real | PosInf | NegInf | NaN

datatype pyval = PyNone | PyBool bool | PyInt int | PyFloat pyfloat | PyStr string

datatype py_error = TypeError | OverflowError | ZeroDivisionError | ModelError

type_synonym pydict = "string \<rightharpoonup> pyval"

definition dict_get :: "pydict \<Rightarrow> string \<Rightarrow> pyval" where
  "dict_get d k = (case d k of None \<Rightarrow> PyNone | Some v \<Rightarrow> v)"

definition dict_get_or :: "pydict \<Rightarrow> string \<Rightarrow> pyval \<Rightarrow> pyval" where
  "dict_get_or d k dflt = (case d k of None \<Rightarrow> dflt | Some v \<Rightarrow> v)"

fun number :: "pyval \<Rightarrow> pyfloat option" where
  \<comment> \<open>the numeric value of a bool, int or float\<close>
  "number (PyBool b) = Some (Finite (if b then 1 else 0))"
| "number (PyInt n) = Some (Finite (real_of_int n))"
| "number (PyFloat x) = Some x"
| "number PyNone = None"
| "number (PyStr s) = None"

definition py_eq :: "pyval \<Rightarrow> pyval \<Rightarrow> bool" where
  \<comment> \<open>\<^verbatim>\<open>a == b\<close>: numbers compare by value (NaN equals nothing), other values structurally\<close>
  "py_eq a b =
     (case (number a, number b) of
        (Some x, Some y) \<Rightarrow> x = y \<and> x \<noteq> NaN
      | (None, None) \<Rightarrow> a = b
      | _ \<Rightarrow> False)"

fun truth :: "pyval \<Rightarrow> bool" where
  "truth PyNone = False"
| "truth (PyBool b) = b"
| "truth (PyInt n) = (n \<noteq> 0)"
| "truth (PyFloat x) = (x \<noteq> Finite 0)"
| "truth (PyStr s) = (s \<noteq> [])"

definition py_or :: "pyval \<Rightarrow> pyval \<Rightarrow> pyval" where
  \<comment> \<open>\<^verbatim>\<open>x or d\<close>\<close>
  "py_or x d = (if truth x then x else d)"

fun gt_zero :: "pyfloat \<Rightarrow> bool" where
  "gt_zero (Finite r) = (0 < r)"
| "gt_zero PosInf = True"
| "gt_zero NegInf = False"
| "gt_zero NaN = False"

definition py_gt_zero :: "pyval \<Rightarrow> py_error + bool" where
  \<comment> \<open>\<^verbatim>\<open>v > 0\<close>: a TypeError on \<^verbatim>\<open>None\<close> and on a string\<close>
  "py_gt_zero v = (case number v of None \<Rightarrow> Inl TypeError | Some x \<Rightarrow> Inr (gt_zero x))"

definition max_zero :: "pyval \<Rightarrow> py_error + pyval" where
  \<comment> \<open>\<^verbatim>\<open>max(0, v)\<close>: \<open>v\<close> when \<^verbatim>\<open>v > 0\<close> holds, else the first argument\<close>
  "max_zero v =
     (case py_gt_zero v of Inl e \<Rightarrow> Inl e | Inr b \<Rightarrow> Inr (if b then v else PyInt 0))"

fun float_times :: "pyfloat \<Rightarrow> real \<Rightarrow> pyfloat" where
  "float_times (Finite r) k = Finite (r * k)"
| "float_times PosInf k = (if 0 < k then PosInf else if k < 0 then NegInf else NaN)"
| "float_times NegInf k = (if 0 < k then NegInf else if k < 0 then PosInf else NaN)"
| "float_times NaN k = NaN"

definition float_limit :: int where
  \<comment> \<open>the least integer that does not convert to a float: halfway between the largest
      float and \<open>2 ^ 1024\<close>\<close>
  "float_limit = 2 ^ 1024 - 2 ^ 970"

fun overflows :: "pyval \<Rightarrow> bool" where
  \<comment> \<open>an int whose conversion to a float raises an OverflowError\<close>
  "overflows (PyInt n) = (float_limit \<le> \<bar>n\<bar>)"
| "overflows _ = False"

definition py_times :: "pyval \<Rightarrow> real \<Rightarrow> py_error + pyval" where
  \<comment> \<open>\<^verbatim>\<open>v * k\<close> for a float literal \<open>k\<close>: a TypeError on \<^verbatim>\<open>None\<close> and on a string; an
      int is converted to a float first, which raises an OverflowError beyond the range
      of a float\<close>
  "py_times v k =
     (case number v of
        None \<Rightarrow> Inl TypeError
      | Some x \<Rightarrow> if overflows v then Inl OverflowError else Inr (PyFloat (float_times x k)))"

fun is_finite :: "pyfloat \<Rightarrow> bool" where
  "is_finite (Finite r) = True"
| "is_finite _ = False"

section \<open>Fixture difficulty (services/fpl\_api.py)\<close>

definition get_fixtures ::
  "pydict list env \<Rightarrow> settings \<Rightarrow> FPLAPI \<Rightarrow> pydict list option \<times> FPLAPI" where
  "get_fixtures env cfg api =
     make_request_with_retry env cfg (FPL_BASE_URL @ ''/fixtures/'') ''GET'' api"

fun scan_fixtures :: "pydict list \<Rightarrow> pyval \<Rightarrow> pyval \<Rightarrow> pyval" where
  \<comment> \<open>the \<^verbatim>\<open>for fixture in fixtures\<close> loop and the \<^verbatim>\<open>return 3\<close> after it\<close>
  "scan_fixtures [] team_id gameweek = PyInt 3"
| "scan_fixtures (fixture # fixtures) team_id gameweek =
     (if py_eq (dict_get fixture ''event'') gameweek then
        (if py_eq (dict_get fixture ''team_h'') team_id
         then dict_get_or fixture ''team_h_difficulty'' (PyInt 3)
         else if py_eq (dict_get fixture ''team_a'') team_id
         then dict_get_or fixture ''team_a_difficulty'' (PyInt 3)
         else scan_fixtures fixtures team_id gameweek)
      else scan_fixtures fixtures team_id gameweek)"

definition get_fixture_difficulty ::
  "pydict list env \<Rightarrow> settings \<Rightarrow> pyval \<Rightarrow> pyval \<Rightarrow> FPLAPI \<Rightarrow> pyval \<times> FPLAPI" where
  "get_fixture_difficulty env cfg team_id gameweek api =
     (case get_fixtures env cfg api of
        (None, api1) \<Rightarrow> (PyInt 3, api1)
      | (Some [], api1) \<Rightarrow> (PyInt 3, api1)
      | (Some fixtures, api1) \<Rightarrow> (scan_fixtures fixtures team_id gameweek, api1))"

text \<open>The fixture is in the gameweek; the team is its home side, its away side.\<close>

definition in_gameweek :: "pydict \<Rightarrow> pyval \<Rightarrow> bool" where
  "in_gameweek fixture gameweek = py_eq (dict_get fixture ''event'') gameweek"

definition home_side :: "pydict \<Rightarrow> pyval \<Rightarrow> bool" where
  "home_side fixture team_id = py_eq (dict_get fixture ''team_h'') team_id"

definition away_side :: "pydict \<Rightarrow> pyval \<Rightarrow> bool" where
  "away_side fixture team_id = py_eq (dict_get fixture ''team_a'') team_id"

definition involves :: "pydict \<Rightarrow> pyval \<Rightarrow> pyval \<Rightarrow> bool" where
  "involves fixture team_id gameweek =
     (in_gameweek fixture gameweek \<and> (home_side fixture team_id \<or> away_side fixture team_id))"

definition fixture_1_v_2 :: pydict where
  "fixture_1_v_2 =
     map_of [(''event'', PyInt 1), (''team_h'', PyInt 1), (''team_h_difficulty'', PyInt 2),
             (''team_a'', PyInt 2), (''team_a_difficulty'', PyInt 4)]"

definition fixture_3_v_4 :: pydict where
  "fixture_3_v_4 =
     map_of [(''event'', PyInt 1), (''team_h'', PyInt 3), (''team_h_difficulty'', PyInt 3),
             (''team_a'', PyInt 4), (''team_a_difficulty'', PyInt 3)]"

definition test_fixtures :: "pydict list" where
  \<comment> \<open>the fixtures of tests/test\_fpl\_api.py\<close>
  "test_fixtures = [fixture_1_v_2, fixture_3_v_4]"

definition fixture_2_v_1 :: pydict where
  "fixture_2_v_1 =
     map_of [(''event'', PyInt 1), (''team_h'', PyInt 2), (''team_h_difficulty'', PyInt 3),
             (''team_a'', PyInt 1), (''team_a_difficulty'', PyInt 4)]"

definition fixture_1_v_3 :: pydict where
  "fixture_1_v_3 =
     map_of [(''event'', PyInt 1), (''team_h'', PyInt 1), (''team_h_difficulty'', PyInt 2),
             (''team_a'', PyInt 3), (''team_a_difficulty'', PyInt 5)]"

definition double_gameweek :: "pydict list" where
  \<comment> \<open>team 1 plays twice in gameweek 1: away first, then at home\<close>
  "double_gameweek = [fixture_2_v_1, fixture_1_v_3]"

definition serves_double_gameweek :: "pydict list env" where
  "serves_double_gameweek =
     \<lparr>server = (\<lambda>k. Response 200 (Some double_gameweek)), close_raises = (\<lambda>i. False),
      open_raises = (\<lambda>i. False)\<rparr>"

definition serves_fixtures :: "pydict list env" where
  "serves_fixtures =
     \<lparr>server = (\<lambda>k. Response 200 (Some test_fixtures)), close_raises = (\<lambda>i. False),
      open_raises = (\<lambda>i. False)\<rparr>"

section \<open>The predictor (services/ml\_predictor.py)\<close>

text \<open>
  \<open>model\<close> stands for \<^verbatim>\<open>self.model.predict(features)[0]\<close> of the fitted regressor: a
  float, or an exception.
\<close>

record MLPredictor =
  is_trained :: bool
  model :: "pyfloat list \<Rightarrow> py_error + pyfloat"

fun fits_integer_array :: "pyval \<Rightarrow> bool" where
  \<comment> \<open>an int that numpy can hold in a 64-bit integer, signed or unsigned\<close>
  "fits_integer_array (PyInt n) = (- (2 ^ 63) \<le> n \<and> n < 2 ^ 64)"
| "fits_integer_array _ = True"

definition np_array :: "pyval list \<Rightarrow> py_error + pyfloat list" where
  \<comment> \<open>the row as a numeric array; with a string in it, or an int beyond 64 bits, the
      array is not numeric and \<^verbatim>\<open>np.isnan\<close> raises a TypeError\<close>
  "np_array vs =
     (if list_all (\<lambda>v. number v \<noteq> None \<and> fits_integer_array v) vs
      then Inr (map (\<lambda>v. case number v of Some x \<Rightarrow> x | None \<Rightarrow> NaN) vs)
      else Inl TypeError)"

definition try_predict :: "MLPredictor \<Rightarrow> pydict \<Rightarrow> pyval \<Rightarrow> py_error + pyval" where
  \<comment> \<open>the \<^verbatim>\<open>try\<close> block of \<^verbatim>\<open>predict_performance\<close>\<close>
  "try_predict self player_stats opponent_difficulty =
     (case py_gt_zero (py_or (dict_get_or player_stats ''clean_sheets'' (PyInt 0)) (PyInt 0)) of
        Inl e \<Rightarrow> Inl e
      | Inr clean \<Rightarrow>
          (case np_array
             [py_or opponent_difficulty (PyInt 3),
              py_or (dict_get_or player_stats ''minutes'' (PyInt 0)) (PyInt 0),
              py_or (dict_get_or player_stats ''goals_scored'' (PyInt 0)) (PyInt 0),
              py_or (dict_get_or player_stats ''assists'' (PyInt 0)) (PyInt 0),
              PyInt (if clean then 1 else 0),
              py_or (dict_get_or player_stats ''yellow_cards'' (PyInt 0)) (PyInt 0),
              py_or (dict_get_or player_stats ''red_cards'' (PyInt 0)) (PyInt 0),
              py_or (dict_get_or player_stats ''saves'' (PyInt 0)) (PyInt 0),
              py_or (dict_get_or player_stats ''bonus'' (PyInt 0)) (PyInt 0),
              py_or (dict_get_or player_stats ''bps'' (PyInt 0)) (PyInt 0),
              py_or (dict_get_or player_stats ''form'' (PyFloat (Finite 0))) (PyFloat (Finite 0)),
              py_or (dict_get_or player_stats ''points_per_game'' (PyFloat (Finite 0)))
                (PyFloat (Finite 0)),
              py_or (dict_get_or player_stats ''selected_by_percent'' (PyFloat (Finite 0)))
                (PyFloat (Finite 0)),
              py_or (dict_get_or player_stats ''transfers_in'' (PyInt 0)) (PyInt 0),
              py_or (dict_get_or player_stats ''transfers_out'' (PyInt 0)) (PyInt 0)] of
             Inl e \<Rightarrow> Inl e
           | Inr features \<Rightarrow>
               if list_ex (\<lambda>x. x = NaN) features \<or> \<not> list_all is_finite features
               then max_zero (dict_get_or player_stats ''form'' (PyInt 0))
               else (case model self features of
                       Inl e \<Rightarrow> Inl e
                     | Inr prediction \<Rightarrow> max_zero (PyFloat prediction))))"

definition predict_performance :: "MLPredictor \<Rightarrow> pydict \<Rightarrow> pyval \<Rightarrow> py_error + pyval" where
  "predict_performance self player_stats opponent_difficulty =
     (if \<not> is_trained self then
        (case py_times (dict_get_or player_stats ''form'' (PyInt 0)) (12 / 10) of
           Inl e \<Rightarrow> Inl e
         | Inr v \<Rightarrow> max_zero v)
      else
        (case try_predict self player_stats opponent_difficulty of
           Inl e \<Rightarrow> max_zero (dict_get_or player_stats ''form'' (PyInt 0))
         | Inr v \<Rightarrow> Inr v))"

definition non_negative :: "pyval \<Rightarrow> bool" where
  \<comment> \<open>a number that is at least 0 (so not NaN)\<close>
  "non_negative v =
     (case number v of
        Some (Finite r) \<Rightarrow> 0 \<le> r
      | Some PosInf \<Rightarrow> True
      | _ \<Rightarrow> False)"

definition numeric_or_absent :: "pydict \<Rightarrow> string \<Rightarrow> bool" where
  "numeric_or_absent d k = (case d k of None \<Rightarrow> True | Some v \<Rightarrow> number v \<noteq> None)"

definition untrained :: MLPredictor where
  "untrained = \<lparr>is_trained = False, model = (\<lambda>features. Inl ModelError)\<rparr>"

definition fitted :: MLPredictor where
  \<comment> \<open>a trained predictor whose model answers 8.5, as in tests/test\_ml\_predictor.py\<close>
  "fitted = \<lparr>is_trained = True, model = (\<lambda>features. Inr (Finite (85 / 10)))\<rparr>"

definition test_stats :: pydict where
  \<comment> \<open>the statistics of tests/test\_ml\_predictor.py\<close>
  "test_stats =
     map_of [(''minutes'', PyInt 90), (''goals_scored'', PyInt 1), (''assists'', PyInt 0),
             (''clean_sheets'', PyInt 1), (''yellow_cards'', PyInt 0), (''red_cards'', PyInt 0),
             (''saves'', PyInt 0), (''bonus'', PyInt 2), (''bps'', PyInt 25),
             (''form'', PyFloat (Finite (75 / 10))),
             (''points_per_game'', PyFloat (Finite (42 / 10))),
             (''selected_by_percent'', PyFloat (Finite (53 / 10))),
             (''transfers_in'', PyInt 1000), (''transfers_out'', PyInt 500)]"

definition huge_form :: pydict where
  \<comment> \<open>a form that is an int beyond the range of a float\<close>
  "huge_form = map_of [(''form'', PyInt (10 ^ 400))]"

definition string_form :: pydict where
  \<comment> \<open>the form as the FPL API serves it, a string\<close>
  "string_form = map_of [(''form'', PyStr ''5.0'')]"

section \<open>The transfer engine (services/transfer\_engine.py)\<close>

text \<open>
  The engine's file is not among the sources: only its tests are
  (tests/test\_transfer\_engine.py). Its operations are modelled from the specification,
  sections 3, 4.2 and 8. A player carries the fields the operations read: the status code
  and the chance of playing (both may be absent), the price in tenths, and the
  total points of the recorded gameweeks, oldest first.
\<close>

datatype availability = available | doubtful | injured | suspended | unavailable

record player =
  status :: "availability option"
  chance_of_playing_next_round :: "int option"
  now_cost :: int
  history :: "int list"

text \<open>
  Modelled from the spec: \<^verbatim>\<open>TransferEngine.is_player_available\<close>, which is missing from
  the sources. "A player is eligible for selection iff: status code is not in {injured,
  suspended, unavailable} AND (chance-of-playing-next-round is absent OR at least 75).
  Missing status defaults to available; missing chance-of-playing defaults to eligible."
\<close>

definition is_player_available :: "player \<Rightarrow> bool" where
  "is_player_available p =
     (let code = (case status p of None \<Rightarrow> available | Some s \<Rightarrow> s)
      in if code \<in> {injured, suspended, unavailable} then False
         else (case chance_of_playing_next_round p of
                 None \<Rightarrow> True
               | Some chance \<Rightarrow> 75 \<le> chance))"

definition true_div :: "real \<Rightarrow> real \<Rightarrow> py_error + real" where
  \<comment> \<open>Python's \<^verbatim>\<open>a / b\<close>, which raises on a zero divisor\<close>
  "true_div a b = (if b = 0 then Inl ZeroDivisionError else Inr (a / b))"

text \<open>
  Modelled from the spec: \<^verbatim>\<open>TransferEngine.calculate_player_value\<close>, which is missing
  from the sources. "value = expected\_points / (price / 10); price of zero yields value 0
  (guarded, not a division fault)." The expected-points method is a parameter, as the test
  patches it.
\<close>

definition calculate_player_value ::
  "(player \<Rightarrow> int \<Rightarrow> real) \<Rightarrow> player \<Rightarrow> int \<Rightarrow> py_error + real" where
  "calculate_player_value expected_points p difficulty =
     (let price = now_cost p
      in if price = 0 then Inr 0
         else true_div (expected_points p difficulty) (real_of_int price / 10))"

text \<open>
  Modelled from the spec: the fallback of \<^verbatim>\<open>TransferEngine.calculate_expected_points\<close>,
  which is missing from the sources. "Average of the most recent 3 recorded total-points
  values in the player's history (0 if history is empty) multiplied by a fixed difficulty
  multiplier table mapping ordinal difficulty 1 to 1.4, 2 to 1.3, 3 to 1.2, 4 to 1.0,
  5 to 0.8." The specification gives no multiplier for a difficulty outside 1 to 5: it is
  the parameter \<open>other\<close>. With fewer than three recorded gameweeks the average is taken
  over those there are.
\<close>

definition difficulty_multipliers :: "(int \<times> real) list" where
  "difficulty_multipliers = [(1, 14 / 10), (2, 13 / 10), (3, 12 / 10), (4, 1), (5, 8 / 10)]"

definition difficulty_multiplier :: "real \<Rightarrow> int \<Rightarrow> real" where
  "difficulty_multiplier other difficulty =
     (case map_of difficulty_multipliers difficulty of None \<Rightarrow> other | Some m \<Rightarrow> m)"

definition recent_average :: "int list \<Rightarrow> real" where
  "recent_average points =
     (let recent = drop (length points - 3) points
      in if recent = [] then 0
         else real_of_int (sum_list recent) / real (length recent))"

definition fallback_points :: "real \<Rightarrow> player \<Rightarrow> int \<Rightarrow> real" where
  "fallback_points other p difficulty =
     recent_average (history p) * difficulty_multiplier other difficulty"

text \<open>
  Modelled from the spec: \<^verbatim>\<open>TransferEngine.calculate_expected_points\<close>, which is missing
  from the sources. "Delegates to the Performance Predictor if trained. If untrained, or
  if the predictor reports invalid (non-finite) output, fall back." What the predictor
  reports for a player and a difficulty is the parameter \<open>predict\<close>: how the engine
  builds the statistics it hands to the predictor is not in the specification.
\<close>

definition calculate_expected_points ::
  "MLPredictor \<Rightarrow> (player \<Rightarrow> int \<Rightarrow> pyfloat) \<Rightarrow> real \<Rightarrow> player \<Rightarrow> int \<Rightarrow> real" where
  "calculate_expected_points ml_predictor predict other p difficulty =
     (if is_trained ml_predictor then
        (case predict p difficulty of
           Finite points \<Rightarrow> points
         | _ \<Rightarrow> fallback_points other p difficulty)
      else fallback_points other p difficulty)"

text \<open>
  The record store is an opaque collaborator with \<^verbatim>\<open>add\<close>, \<^verbatim>\<open>commit\<close> and
  \<^verbatim>\<open>rollback\<close>. Its state is the committed records, the records added and not yet
  committed, and the calls made to it, oldest first. A call to \<^verbatim>\<open>add\<close> or \<^verbatim>\<open>commit\<close>
  may fault, which the environment decides.
\<close>

record transfer_record =
  outgoing :: int
  incoming :: int
  projected_gain :: real
  transfer_cost :: int
  target_gameweek :: int
  recorded_at :: nat

datatype store_call = Add transfer_record | Commit | Rollback

record store =
  committed :: "transfer_record list"
  pending :: "transfer_record list"
  calls :: "store_call list"

record store_faults =
  add_faults :: bool
  commit_faults :: bool

definition db_add :: "store_faults \<Rightarrow> transfer_record \<Rightarrow> store \<Rightarrow> store + store" where
  "db_add faults r db =
     (let db1 = db\<lparr>calls := calls db @ [Add r]\<rparr>
      in if add_faults faults then Inl db1 else Inr (db1\<lparr>pending := pending db @ [r]\<rparr>))"

definition db_commit :: "store_faults \<Rightarrow> store \<Rightarrow> store + store" where
  "db_commit faults db =
     (let db1 = db\<lparr>calls := calls db @ [Commit]\<rparr>
      in if commit_faults faults then Inl db1
         else Inr (db1\<lparr>committed := committed db @ pending db, pending := []\<rparr>))"

definition db_rollback :: "store \<Rightarrow> store" where
  "db_rollback db = db\<lparr>calls := calls db @ [Rollback], pending := []\<rparr>"

text \<open>
  Modelled from the spec: \<^verbatim>\<open>TransferEngine.record_transfer\<close>, which is missing from
  the sources. "Each TransferRecord is added and committed to the record store as a single
  transaction; any persistence fault triggers a rollback of that transaction and is
  logged, not propagated as a fatal error to the caller." The result is the store and the
  log; there is no exceptional result.
\<close>

definition record_transfer ::
  "store_faults \<Rightarrow> transfer_record \<Rightarrow> store \<times> string list \<Rightarrow> store \<times> string list" where
  "record_transfer faults r state =
     (case db_add faults r (fst state) of
        Inl db1 \<Rightarrow> (db_rollback db1, snd state @ [''Error recording transfer''])
      | Inr db1 \<Rightarrow>
          (case db_commit faults db1 of
             Inl db2 \<Rightarrow> (db_rollback db2, snd state @ [''Error recording transfer''])
           | Inr db2 \<Rightarrow> (db2, snd state)))"

subsection \<open>The players and the transfer of the tests\<close>

definition test_player :: player where
  "test_player =
     \<lparr>status = Some available, chance_of_playing_next_round = Some 100, now_cost = 50,
      history = [5, 7, 3]\<rparr>"

definition test_transfer :: transfer_record where
  "test_transfer =
     \<lparr>outgoing = 1, incoming = 2, projected_gain = 25 / 10,
      transfer_cost = 0, target_gameweek = 13, recorded_at = 0\<rparr>"

definition empty_store :: store where
  "empty_store = \<lparr>committed = [], pending = [], calls = []\<rparr>"

definition add_fails :: store_faults where
  "add_fails = \<lparr>add_faults = True, commit_faults = False\<rparr>"

definition no_faults :: store_faults where
  "no_faults = \<lparr>add_faults = False, commit_faults = False\<rparr>"

section \<open>Verified properties\<close>

subsection \<open>Effects and connections\<close>

lemma entered_eq: "aenter always_429 init = entered"
  by code_simp

lemma emit_simps [simp]:
  "session (emit e api) = session api"
  "authenticated_session (emit e api) = authenticated_session api"
  "effects (emit e api) = effects api @ [e]"
  by (simp_all add: emit_def)

lemma requests_sent_emit [simp]:
  "requests_sent (emit e api) = (if is_sent e then Suc (requests_sent api) else requests_sent api)"
  by (simp add: requests_sent_def)

lemma is_closed_emit_other [simp]:
  "e \<noteq> Closed (ident c) \<Longrightarrow> is_closed (emit e api) c = is_closed api c"
  by (auto simp: is_closed_def dest: in_set_dropD)

lemma session_to_use_emit [simp]: "session_to_use (emit e api) = session_to_use api"
  by (simp add: session_to_use_def)

lemma send_on:
  "sends_on method api c \<Longrightarrow>
   (upper method = ''GET'' \<longrightarrow> send env ''GET'' (session api) url api
      = (server env (requests_sent api), emit (Sent ''GET'' (ident c) url) api)) \<and>
   (upper method \<noteq> ''GET'' \<longrightarrow> upper method = ''POST'' \<and>
      send env ''POST'' (session_to_use api) url api
      = (server env (requests_sent api), emit (Sent ''POST'' (ident c) url) api))"
  by (auto simp: sends_on_def send_def)

lemma sends_on_sent_slept:
  "sends_on method api c \<Longrightarrow> sends_on method (sleep d (emit (Sent v i url) api)) c"
  by (simp add: sends_on_def sleep_def)

lemma requests_sent_sent_slept [simp]:
  "requests_sent (sleep d (emit (Sent v i url) api)) = Suc (requests_sent api)"
  by (simp add: sleep_def)

lemma sends_on_session: "sends_on method api c \<Longrightarrow> session api \<noteq> None"
  by (simp add: sends_on_def)

lemma upt_max_retries: "[0..<max_retries] = [0, 1, 2]"
  by (simp add: max_retries_def upt_rec)

lemma make_request_with_retry_loop:
  "sends_on method api c \<Longrightarrow>
   make_request_with_retry env cfg url method api = retry_loop env cfg url method [0, 1, 2] 1 api"
  by (auto simp: make_request_with_retry_def upt_max_retries dest: sends_on_session
      simp del: retry_loop.simps)

subsection \<open>Rate limiting\<close>

lemma attempt_body_429:
  assumes "sends_on method api c" "http_status (server env (requests_sent api)) = Some 429"
  shows "attempt_body env cfg url method a d api
     = (Continue (d * 2), sleep (d * 2) (emit (Sent (upper method) (ident c) url) api))"
proof -
  obtain b where r: "server env (requests_sent api) = Response 429 b"
    using assms(2) by (cases "server env (requests_sent api)") auto
  show ?thesis
    using send_on [OF assms(1), of env url] r
    by (cases "upper method = ''GET''")
       (auto simp: attempt_body_def try_block_def rate_limited_def normally_def)
qed

lemma retry_loop_429:
  assumes "sends_on method api c" "http_status (server env (requests_sent api)) = Some 429"
  shows "retry_loop env cfg url method (a # rest) d api
     = retry_loop env cfg url method rest (d * 2)
         (sleep (d * 2) (emit (Sent (upper method) (ident c) url) api))"
  by (simp add: attempt_body_429 [OF assms])

text \<open>
  C1 (as the code has it). A 429 response makes the client wait twice the current delay
  and double the delay, and then \<^verbatim>\<open>continue\<close> moves the \<^verbatim>\<open>for\<close> loop to its next
  attempt: the retry uses up an attempt slot like every other retry. Under three 429
  responses in a row the request is sent exactly three times, with waits of 2, 4 and 8,
  and the failure indicator \<open>None\<close> is returned.
\<close>

theorem rate_limited_retry_is_bounded:
  assumes "sends_on method api c"
  shows "(http_status (server env (requests_sent api)) = Some 429 \<longrightarrow>
            retry_loop env cfg url method (attempt # rest) retry_delay api
            = retry_loop env cfg url method rest (retry_delay * 2)
                (sleep (retry_delay * 2) (emit (Sent (upper method) (ident c) url) api))) \<and>
         ((\<forall>k<3. http_status (server env (requests_sent api + k)) = Some 429) \<longrightarrow>
            make_request_with_retry env cfg url method api
            = (None, api\<lparr>effects := effects api @
                 [Sent (upper method) (ident c) url, Slept 2,
                  Sent (upper method) (ident c) url, Slept 4,
                  Sent (upper method) (ident c) url, Slept 8]\<rparr>))"
proof (intro conjI impI)
  assume "http_status (server env (requests_sent api)) = Some 429"
  then show "retry_loop env cfg url method (attempt # rest) retry_delay api
            = retry_loop env cfg url method rest (retry_delay * 2)
                (sleep (retry_delay * 2) (emit (Sent (upper method) (ident c) url) api))"
    by (rule retry_loop_429 [OF assms])
next
  let ?s = "Sent (upper method) (ident c) url"
  assume all: "\<forall>k<3. http_status (server env (requests_sent api + k)) = Some 429"
  define api1 where "api1 = sleep 2 (emit ?s api)"
  define api2 where "api2 = sleep 4 (emit ?s api1)"
  define api3 where "api3 = sleep 8 (emit ?s api2)"
  have s1: "sends_on method api1 c" and n1: "requests_sent api1 = requests_sent api + 1"
    using assms by (simp_all add: api1_def sends_on_sent_slept)
  have s2: "sends_on method api2 c" and n2: "requests_sent api2 = requests_sent api + 2"
    using s1 n1 by (simp_all add: api2_def sends_on_sent_slept)
  have r0: "http_status (server env (requests_sent api)) = Some 429"
    using all [rule_format, of 0] by simp
  have r1: "http_status (server env (requests_sent api1)) = Some 429"
    using all [rule_format, of 1] n1 by simp
  have r2: "http_status (server env (requests_sent api2)) = Some 429"
    using all [rule_format, of 2] n2 by simp
  have "make_request_with_retry env cfg url method api
        = retry_loop env cfg url method [0, 1, 2] 1 api"
    by (rule make_request_with_retry_loop [OF assms])
  also have "\<dots> = retry_loop env cfg url method [1, 2] 2 api1"
    using retry_loop_429 [OF assms r0, of cfg url 0 "[1, 2]" 1] by (simp add: api1_def)
  also have "\<dots> = retry_loop env cfg url method [2] 4 api2"
    using retry_loop_429 [OF s1 r1, of cfg url 1 "[2]" 2] by (simp add: api2_def)
  also have "\<dots> = retry_loop env cfg url method [] 8 api3"
    using retry_loop_429 [OF s2 r2, of cfg url 2 "[]" 4] by (simp add: api3_def)
  also have "\<dots> = (None, api3)" by simp
  also have "api3 = api\<lparr>effects := effects api @ [?s, Slept 2, ?s, Slept 4, ?s, Slept 8]\<rparr>"
    by (simp add: api3_def api2_def api1_def sleep_def emit_def)
  finally show "make_request_with_retry env cfg url method api
      = (None, api\<lparr>effects := effects api @ [?s, Slept 2, ?s, Slept 4, ?s, Slept 8]\<rparr>)" .
qed

theorem rate_limited_retry_is_bounded_witness:
  "sends_on ''get'' entered user_agent \<and>
   http_status (server always_429 (requests_sent entered)) = Some 429 \<and>
   http_status (server always_429 (requests_sent entered + 1)) = Some 429 \<and>
   http_status (server always_429 (requests_sent entered + 2)) = Some 429 \<and>
   make_request_with_retry always_429 example_settings ''/fixtures/'' ''get'' entered
   = (None, entered\<lparr>effects := [Opened user_agent,
        Sent ''GET'' 0 ''/fixtures/'', Slept 2,
        Sent ''GET'' 0 ''/fixtures/'', Slept 4,
        Sent ''GET'' 0 ''/fixtures/'', Slept 8]\<rparr>)"
proof -
  have h: "sends_on ''get'' entered user_agent" by code_simp
  have u: "upper ''get'' = ''GET''" by code_simp
  have a: "\<forall>k<3. http_status (server always_429 (requests_sent entered + k)) = Some 429"
    by (simp add: always_429_def)
  have b: "http_status (server always_429 n) = Some 429" for n
    by (simp add: always_429_def)
  show ?thesis
    using h a u b
      rate_limited_retry_is_bounded
        [OF h, of always_429 example_settings "''/fixtures/''" 0 "[]" 1]
    by (simp add: entered_def user_agent_def)
qed

text \<open>
  C1 (as the specification words it) fails: with a server that answers 429 for ever, the
  request is not retried without bound. After the third 429 the loop is exhausted and the
  failure indicator is returned.
\<close>

theorem sustained_429_counterexample:
  "make_request_with_retry always_429 example_settings
     ''https://fantasy.premierleague.com/api/bootstrap-static/'' ''GET'' entered
   = (None, entered\<lparr>effects := [Opened user_agent,
        Sent ''GET'' 0 ''https://fantasy.premierleague.com/api/bootstrap-static/'', Slept 2,
        Sent ''GET'' 0 ''https://fantasy.premierleague.com/api/bootstrap-static/'', Slept 4,
        Sent ''GET'' 0 ''https://fantasy.premierleague.com/api/bootstrap-static/'', Slept 8]\<rparr>)"
  by code_simp

subsection \<open>Failed attempts\<close>

lemma requests_sent_sleep [simp]: "requests_sent (sleep d api) = requests_sent api"
  by (simp add: sleep_def)

lemma requests_sent_auth_update [simp]:
  "requests_sent (api\<lparr>authenticated_session := x\<rparr>) = requests_sent api"
  by (simp add: requests_sent_def)

lemma authenticate_requests_sent [simp]:
  "requests_sent (snd (authenticate env cfg api)) = requests_sent api"
  by (auto simp: authenticate_def close_def ClientSession_def Let_def
      split: option.splits sum.splits prod.splits)

lemma send_requests_sent:
  "requests_sent (snd (send env verb conn url api)) \<le> Suc (requests_sent api)"
  by (auto simp: send_def split: option.splits)

lemma backoff_requests_sent [simp]:
  "requests_sent (snd (backoff a d api :: 'a control \<times> FPLAPI)) = requests_sent api"
  by (simp add: backoff_def)

lemma rate_limited_requests_sent [simp]:
  "requests_sent (snd (rate_limited d api :: 'a control \<times> FPLAPI)) = requests_sent api"
  by (simp add: rate_limited_def)

lemma attempt_body_failure:
  assumes "sends_on method api c" "transient_failure method (server env (requests_sent api))"
  shows "attempt_body env cfg url method a d api
     = backoff a d (emit (Sent (upper method) (ident c) url) api)"
  using send_on [OF assms(1), of env url] assms(2)
  by (cases "upper method = ''GET''"; cases "server env (requests_sent api)")
     (auto simp: attempt_body_def try_block_def transient_failure_def normally_def json_def
        raised_def backoff_def split: if_splits)

lemma try_block_requests_sent:
  "requests_sent (snd (try_block env cfg url method a d api))
   \<le> requests_sent api + (if upper method = ''GET'' then 1 else 2)"
proof (cases "upper method = ''GET''")
  case True
  show ?thesis
    using send_requests_sent [of env "''GET''" "session api" url api] True
    by (auto simp: try_block_def normally_def split: prod.splits http_outcome.splits)
next
  case False
  show ?thesis
  proof (cases "upper method = ''POST''")
    case False
    with \<open>upper method \<noteq> ''GET''\<close> show ?thesis by (simp add: try_block_def)
  next
    case True
    obtain r api1 where s1: "send env ''POST'' (session_to_use api) url api = (r, api1)"
      by (cases "send env ''POST'' (session_to_use api) url api")
    have n1: "requests_sent api1 \<le> Suc (requests_sent api)"
      using send_requests_sent [of env "''POST''" "session_to_use api" url api] s1 by simp
    obtain ok api2 where a: "authenticate env cfg api1 = (ok, api2)"
      by (cases "authenticate env cfg api1")
    have n2: "requests_sent api2 = requests_sent api1"
      using authenticate_requests_sent [of env cfg api1] a by simp
    obtain r' api3 where s3:
      "send env ''POST'' (authenticated_session api2) url api2 = (r', api3)"
      by (cases "send env ''POST'' (authenticated_session api2) url api2")
    have n3: "requests_sent api3 \<le> Suc (requests_sent api2)"
      using send_requests_sent [of env "''POST''" "authenticated_session api2" url api2] s3
      by simp
    show ?thesis
      using True \<open>upper method \<noteq> ''GET''\<close> s1 a s3 n1 n2 n3
      by (cases ok) (auto simp: try_block_def normally_def split: http_outcome.splits)
  qed
qed

lemma attempt_body_requests_sent:
  "requests_sent (snd (attempt_body env cfg url method a d api))
   \<le> requests_sent api + (if upper method = ''GET'' then 1 else 2)"
  using try_block_requests_sent [of env cfg url "method" a d api]
  by (auto simp: attempt_body_def split: prod.splits sum.splits exn.splits)

lemma retry_loop_requests_sent:
  "requests_sent (snd (retry_loop env cfg url method attempts d api))
   \<le> requests_sent api + length attempts * (if upper method = ''GET'' then 1 else 2)"
proof (induction attempts arbitrary: d api)
  case Nil
  show ?case by simp
next
  case (Cons a rest)
  obtain c api1 where b: "attempt_body env cfg url method a d api = (c, api1)"
    by (cases "attempt_body env cfg url method a d api")
  have n: "requests_sent api1 \<le> requests_sent api + (if upper method = ''GET'' then 1 else 2)"
    using attempt_body_requests_sent [of env cfg url "method" a d api] b by simp
  show ?case
  proof (cases c)
    case (Return result)
    with b n show ?thesis by simp
  next
    case (Continue d')
    have "requests_sent (snd (retry_loop env cfg url method rest d' api1))
        \<le> requests_sent api1 + length rest * (if upper method = ''GET'' then 1 else 2)"
      by (rule Cons.IH)
    with Continue b n show ?thesis by simp
  qed
qed

lemma retry_loop_failure:
  assumes "sends_on method api c" "transient_failure method (server env (requests_sent api))"
  shows "retry_loop env cfg url method (a # rest) d api
     = (if a < max_retries - 1
        then retry_loop env cfg url method rest (d * 2)
               (sleep d (emit (Sent (upper method) (ident c) url) api))
        else (None, emit (Sent (upper method) (ident c) url) api))"
  by (simp add: attempt_body_failure [OF assms] backoff_def)

text \<open>
  C2. A timeout, a fault, or a status other than 200 and 429 (and other than 401 on a
  POST) uses up the attempt: before the last attempt the client waits the current delay,
  doubles it and goes on to the next attempt, and on the last attempt (\<open>attempt = 2\<close>) it
  returns \<open>None\<close> at once. Three such failures in a row send the request three times, with
  waits of 1 and 2, and return \<open>None\<close>. Whatever the server answers, a GET is sent at most
  3 times and a POST at most 6 times (3 attempts, each with at most one re-send after a
  401). Both exception classes are handled inside \<open>attempt_body\<close>, so the result is
  always a value, never an exception.
\<close>

theorem failed_attempts_are_bounded:
  assumes "sends_on method api c"
  shows "(transient_failure method (server env (requests_sent api)) \<longrightarrow>
            retry_loop env cfg url method (attempt # rest) retry_delay api
            = (if attempt < max_retries - 1
               then retry_loop env cfg url method rest (retry_delay * 2)
                      (sleep retry_delay (emit (Sent (upper method) (ident c) url) api))
               else (None, emit (Sent (upper method) (ident c) url) api))) \<and>
         ((\<forall>k<3. transient_failure method (server env (requests_sent api + k))) \<longrightarrow>
            make_request_with_retry env cfg url method api
            = (None, api\<lparr>effects := effects api @
                 [Sent (upper method) (ident c) url, Slept 1,
                  Sent (upper method) (ident c) url, Slept 2,
                  Sent (upper method) (ident c) url]\<rparr>)) \<and>
         requests_sent (snd (make_request_with_retry env cfg url method api))
           \<le> requests_sent api + (if upper method = ''GET'' then 3 else 6)"
proof (intro conjI impI)
  assume "transient_failure method (server env (requests_sent api))"
  then show "retry_loop env cfg url method (attempt # rest) retry_delay api
            = (if attempt < max_retries - 1
               then retry_loop env cfg url method rest (retry_delay * 2)
                      (sleep retry_delay (emit (Sent (upper method) (ident c) url) api))
               else (None, emit (Sent (upper method) (ident c) url) api))"
    by (rule retry_loop_failure [OF assms])
next
  let ?s = "Sent (upper method) (ident c) url"
  assume all: "\<forall>k<3. transient_failure method (server env (requests_sent api + k))"
  define api1 where "api1 = sleep 1 (emit ?s api)"
  define api2 where "api2 = sleep 2 (emit ?s api1)"
  have s1: "sends_on method api1 c" and n1: "requests_sent api1 = requests_sent api + 1"
    using assms by (simp_all add: api1_def sends_on_sent_slept)
  have s2: "sends_on method api2 c" and n2: "requests_sent api2 = requests_sent api + 2"
    using s1 n1 by (simp_all add: api2_def sends_on_sent_slept)
  have r0: "transient_failure method (server env (requests_sent api))"
    using all [rule_format, of 0] by simp
  have r1: "transient_failure method (server env (requests_sent api1))"
    using all [rule_format, of 1] n1 by simp
  have r2: "transient_failure method (server env (requests_sent api2))"
    using all [rule_format, of 2] n2 by simp
  have "make_request_with_retry env cfg url method api
        = retry_loop env cfg url method [0, 1, 2] 1 api"
    by (rule make_request_with_retry_loop [OF assms])
  also have "\<dots> = retry_loop env cfg url method [1, 2] 2 api1"
    using retry_loop_failure [OF assms r0, of cfg url 0 "[1, 2]" 1]
    by (simp add: api1_def max_retries_def)
  also have "\<dots> = retry_loop env cfg url method [2] 4 api2"
    using retry_loop_failure [OF s1 r1, of cfg url 1 "[2]" 2]
    by (simp add: api2_def max_retries_def)
  also have "\<dots> = (None, emit ?s api2)"
    using retry_loop_failure [OF s2 r2, of cfg url 2 "[]" 4]
    by (simp add: max_retries_def)
  also have "emit ?s api2 = api\<lparr>effects := effects api @ [?s, Slept 1, ?s, Slept 2, ?s]\<rparr>"
    by (simp add: api2_def api1_def sleep_def emit_def)
  finally show "make_request_with_retry env cfg url method api
      = (None, api\<lparr>effects := effects api @ [?s, Slept 1, ?s, Slept 2, ?s]\<rparr>)" .
next
  show "requests_sent (snd (make_request_with_retry env cfg url method api))
           \<le> requests_sent api + (if upper method = ''GET'' then 3 else 6)"
    using retry_loop_requests_sent [of env cfg url "method" "[0, 1, 2]" 1 api]
    by (auto simp: make_request_with_retry_loop [OF assms] simp del: retry_loop.simps)
qed

theorem failed_attempts_are_bounded_witness:
  "sends_on ''GET'' entered user_agent \<and>
   transient_failure ''GET'' (server always_500 (requests_sent entered)) \<and>
   transient_failure ''GET'' (server always_500 (requests_sent entered + 1)) \<and>
   transient_failure ''GET'' (server always_500 (requests_sent entered + 2)) \<and>
   make_request_with_retry always_500 example_settings ''/fixtures/'' ''GET'' entered
   = (None, entered\<lparr>effects := [Opened user_agent,
        Sent ''GET'' 0 ''/fixtures/'', Slept 1,
        Sent ''GET'' 0 ''/fixtures/'', Slept 2,
        Sent ''GET'' 0 ''/fixtures/'']\<rparr>) \<and>
   requests_sent (snd (make_request_with_retry always_500 example_settings ''/fixtures/''
     ''GET'' entered)) \<le> requests_sent entered + 3"
proof -
  have h: "sends_on ''GET'' entered user_agent" by code_simp
  have u: "upper ''GET'' = ''GET''" by code_simp
  have b: "transient_failure ''GET'' (server always_500 n)" for n
    by (simp add: always_500_def transient_failure_def)
  note t = failed_attempts_are_bounded
             [OF h, of always_500 example_settings "''/fixtures/''" 0 "[]" 1]
  have r: "make_request_with_retry always_500 example_settings ''/fixtures/'' ''GET'' entered
      = (None, entered\<lparr>effects := effects entered @
           [Sent (upper ''GET'') (ident user_agent) ''/fixtures/'', Slept 1,
            Sent (upper ''GET'') (ident user_agent) ''/fixtures/'', Slept 2,
            Sent (upper ''GET'') (ident user_agent) ''/fixtures/'']\<rparr>)"
    using t b by blast
  have n: "requests_sent (snd (make_request_with_retry always_500 example_settings
      ''/fixtures/'' ''GET'' entered)) \<le> requests_sent entered + 3"
    using t u by simp
  have e: "entered\<lparr>effects := effects entered @
           [Sent (upper ''GET'') (ident user_agent) ''/fixtures/'', Slept 1,
            Sent (upper ''GET'') (ident user_agent) ''/fixtures/'', Slept 2,
            Sent (upper ''GET'') (ident user_agent) ''/fixtures/'']\<rparr>
      = entered\<lparr>effects := [Opened user_agent,
        Sent ''GET'' 0 ''/fixtures/'', Slept 1,
        Sent ''GET'' 0 ''/fixtures/'', Slept 2,
        Sent ''GET'' 0 ''/fixtures/'']\<rparr>"
    by (simp add: u entered_def user_agent_def)
  show ?thesis
    using h b n r unfolding e by blast
qed

subsection \<open>Authentication\<close>

lemma authenticated_eq: "snd (authenticate always_429 both_configured entered) = authenticated"
  by code_simp

text \<open>
  C9. \<^verbatim>\<open>_authenticate\<close> first closes the existing authenticated connection, if there is
  one, and only then opens the new one (the \<open>Closed\<close> effect precedes the \<open>Opened\<close>
  effect). With session id and CSRF token configured it opens a connection carrying the
  Cookie, X-CSRFToken and Referer headers and reports success, whether or not username
  and password are configured as well; with only username and password it opens a
  connection with the plain headers; with neither it reports failure, and a client that
  had no authenticated connection still has none. This is the behaviour when the library's
  \<^verbatim>\<open>close\<close> and constructor return normally; when one of them raises, the exception is
  caught and the call reports failure (the last two conjuncts).
\<close>

theorem authenticate_state_machine:
  "(let close_fault = (case authenticated_session api of
                         None \<Rightarrow> False
                       | Some old \<Rightarrow> close_raises env (ident old));
        open_fault = open_raises env (length (effects (after_close api)));
        session_auth = (truthy (SESSION_ID cfg) \<and> truthy (CSRF_TOKEN cfg));
        credential_auth = (truthy (FPL_USERNAME cfg) \<and> truthy (FPL_PASSWORD cfg))
    in (\<not> close_fault \<and> \<not> open_fault \<and> session_auth \<longrightarrow>
          authenticate env cfg api
          = (True, after_open (session_headers cfg) (after_close api))) \<and>
       (\<not> close_fault \<and> \<not> open_fault \<and> \<not> session_auth \<and> credential_auth \<longrightarrow>
          authenticate env cfg api
          = (True, after_open [(''User-Agent'', ''FPL-Bot/1.0'')] (after_close api))) \<and>
       (\<not> close_fault \<and> \<not> session_auth \<and> \<not> credential_auth \<longrightarrow>
          authenticate env cfg api = (False, after_close api)) \<and>
       (\<not> session_auth \<and> \<not> credential_auth \<and> authenticated_session api = None \<longrightarrow>
          authenticate env cfg api = (False, api)) \<and>
       (close_fault \<longrightarrow> authenticate env cfg api = (False, api)) \<and>
       (\<not> close_fault \<and> open_fault \<and> (session_auth \<or> credential_auth) \<longrightarrow>
          authenticate env cfg api = (False, after_close api)))"
  by (auto simp: authenticate_def close_def ClientSession_def fresh_ident_def after_close_def
      after_open_def Let_def split: option.splits)

theorem authenticate_state_machine_witness:
  "authenticate always_429 both_configured authenticated
   = (True, \<lparr>session = Some user_agent, authenticated_session = Some (cookie_session 3),
        effects = [Opened user_agent, Opened (cookie_session 1), Closed 1,
                   Opened (cookie_session 3)]\<rparr>)"
proof -
  have "authenticate always_429 both_configured authenticated
      = (True, after_open (session_headers both_configured) (after_close authenticated))"
    using authenticate_state_machine
            [where api = authenticated and env = always_429 and cfg = both_configured]
    by (simp add: Let_def authenticated_def always_429_def both_configured_def truthy_def)
  also have "after_open (session_headers both_configured) (after_close authenticated)
      = \<lparr>session = Some user_agent, authenticated_session = Some (cookie_session 3),
        effects = [Opened user_agent, Opened (cookie_session 1), Closed 1,
                   Opened (cookie_session 3)]\<rparr>"
    by code_simp
  finally show ?thesis .
qed

subsection \<open>A 401 on a write\<close>

lemma authenticate_True:
  assumes "authenticate env cfg api = (True, api2)"
  shows "\<exists>c'. authenticated_session api2 = Some c' \<and> last (effects api2) = Opened c' \<and>
              \<not> is_closed api2 c' \<and> requests_sent api2 = requests_sent api"
  using assms
  by (auto simp: authenticate_def close_def ClientSession_def fresh_ident_def Let_def
      is_closed_def requests_sent_def
      split: option.splits if_splits)

lemma send_open:
  "\<not> is_closed api c \<Longrightarrow>
   send env verb (Some c) url api
   = (server env (requests_sent api), emit (Sent verb (ident c) url) api)"
  by (simp add: send_def)

text \<open>
  C3 (as the code has it). A POST that is answered 401 calls \<^verbatim>\<open>_authenticate\<close> exactly
  once. If that fails, \<open>None\<close> is returned at once. If it succeeds, the request is sent
  once more on the connection just opened: a 200 with a body returns the body, and a
  response with any other status returns \<open>None\<close>, both without further attempts. When
  the re-sent request does not come back with a response at all (it times out or raises,
  or the body of its 200 cannot be read), the exception reaches the handlers of the
  \<^verbatim>\<open>try\<close> statement like any other: before the last attempt the client waits and
  goes on to the next attempt.
\<close>

theorem unauthorized_write_reauthenticates_once:
  assumes "sends_on method api c" and "upper method = ''POST''"
    and "http_status (server env (requests_sent api)) = Some 401"
    and "authenticate env cfg (emit (Sent ''POST'' (ident c) url) api) = (ok, api2)"
  shows "(\<not> ok \<longrightarrow>
            retry_loop env cfg url method (attempt # rest) retry_delay api = (None, api2)) \<and>
         (ok \<longrightarrow>
            (\<exists>c'. authenticated_session api2 = Some c' \<and> last (effects api2) = Opened c' \<and>
               (\<forall>code body.
                  server env (Suc (requests_sent api)) = Response code body \<and> code \<noteq> 200 \<longrightarrow>
                  retry_loop env cfg url method (attempt # rest) retry_delay api
                  = (None, emit (Sent ''POST'' (ident c') url) api2)) \<and>
               (\<forall>doc.
                  server env (Suc (requests_sent api)) = Response 200 (Some doc) \<longrightarrow>
                  retry_loop env cfg url method (attempt # rest) retry_delay api
                  = (Some doc, emit (Sent ''POST'' (ident c') url) api2)) \<and>
               (server env (Suc (requests_sent api))
                  \<in> {Raises_Timeout, Raises_Other, Response 200 None} \<longrightarrow>
                  retry_loop env cfg url method (attempt # rest) retry_delay api
                  = give_up env cfg url method attempt rest retry_delay
                      (emit (Sent ''POST'' (ident c') url) api2))))"
proof -
  let ?api1 = "emit (Sent ''POST'' (ident c) url) api"
  obtain b where r: "server env (requests_sent api) = Response 401 b"
    using assms(3) by (cases "server env (requests_sent api)") auto
  have ng: "upper method \<noteq> ''GET''" using assms(2) by simp
  have s: "send env ''POST'' (session_to_use api) url api = (Response 401 b, ?api1)"
    using send_on [OF assms(1), of env url] ng r by simp
  show ?thesis
  proof (cases ok)
    case False
    then show ?thesis
      using assms(2,4) s ng by (simp add: attempt_body_def try_block_def)
  next
    case True
    then obtain c' where c': "authenticated_session api2 = Some c'"
        "last (effects api2) = Opened c'" "\<not> is_closed api2 c'"
        "requests_sent api2 = requests_sent ?api1"
      using authenticate_True [of env cfg ?api1 api2] assms(4) by auto
    have s2: "send env ''POST'' (authenticated_session api2) url api2
        = (server env (Suc (requests_sent api)), emit (Sent ''POST'' (ident c') url) api2)"
      using c' by (simp add: send_open)
    have body: "attempt_body env cfg url method attempt retry_delay api
        = (case server env (Suc (requests_sent api)) of
             Response code body \<Rightarrow>
               if code = 200 then
                 (case body of
                    None \<Rightarrow> backoff attempt retry_delay (emit (Sent ''POST'' (ident c') url) api2)
                  | Some doc \<Rightarrow> (Return (Some doc), emit (Sent ''POST'' (ident c') url) api2))
               else (Return None, emit (Sent ''POST'' (ident c') url) api2)
           | _ \<Rightarrow> backoff attempt retry_delay (emit (Sent ''POST'' (ident c') url) api2))"
      using assms(2,4) s s2 ng True c'(1)
      by (auto simp: attempt_body_def try_block_def json_def raised_def
          split: http_outcome.splits option.splits)
    show ?thesis
      using True c'(1,2) body
      by (auto simp: give_up_def backoff_def)
  qed
qed

theorem unauthorized_write_reauthenticates_once_witness:
  "sends_on ''POST'' entered user_agent \<and> upper ''POST'' = ''POST'' \<and>
   http_status (server unauthorized_then_ok (requests_sent entered)) = Some 401 \<and>
   authenticate unauthorized_then_ok example_settings
     (emit (Sent ''POST'' (ident user_agent) transfers_url) entered) = (True, reauthenticated) \<and>
   retry_loop unauthorized_then_ok example_settings transfers_url ''POST'' [0, 1, 2] 1 entered
   = (Some ''ok'', emit (Sent ''POST'' 2 transfers_url) reauthenticated)"
proof -
  have h: "sends_on ''POST'' entered user_agent" by code_simp
  have u: "upper ''POST'' = ''POST''" by code_simp
  have r: "http_status (server unauthorized_then_ok (requests_sent entered)) = Some 401"
    by code_simp
  have a: "authenticate unauthorized_then_ok example_settings
     (emit (Sent ''POST'' (ident user_agent) transfers_url) entered) = (True, reauthenticated)"
    by code_simp
  have s: "authenticated_session reauthenticated = Some (cookie_session 2)"
    by (simp add: reauthenticated_def)
  have o: "server unauthorized_then_ok (Suc (requests_sent entered)) = Response 200 (Some ''ok'')"
    by code_simp
  have i: "ident (cookie_session 2) = 2"
    by (simp add: cookie_session_def)
  have "retry_loop unauthorized_then_ok example_settings transfers_url ''POST'' [0, 1, 2] 1
      entered = (Some ''ok'', emit (Sent ''POST'' 2 transfers_url) reauthenticated)"
    using unauthorized_write_reauthenticates_once [OF h u r a, of 0 "[1, 2]" 1] s o i
    by auto
  with h u r a show ?thesis by blast
qed

text \<open>
  C3 (as the specification words it) fails: here the re-sent request does not return 200
  (it times out), and the operation does not report failure. It waits one second, sends
  the request a third time and returns the body of the 200 it then gets.
\<close>

theorem retried_write_timeout_counterexample:
  "make_request_with_retry unauthorized_then_timeout example_settings transfers_url ''POST''
     entered
   = (Some ''ok'',
      \<lparr>session = Some user_agent, authenticated_session = Some (cookie_session 2),
       effects = [Opened user_agent, Sent ''POST'' 0 transfers_url,
                  Opened (cookie_session 2), Sent ''POST'' 2 transfers_url, Slept 1,
                  Sent ''POST'' 2 transfers_url]\<rparr>)"
  by code_simp

subsection \<open>Fixture difficulty\<close>

lemma retry_loop_200:
  assumes "sends_on method api c" "server env (requests_sent api) = Response 200 (Some doc)"
  shows "retry_loop env cfg url method (a # rest) d api
     = (Some doc, emit (Sent (upper method) (ident c) url) api)"
  using send_on [OF assms(1), of env url] assms(2)
  by (cases "upper method = ''GET''") (auto simp: attempt_body_def try_block_def json_def)

lemma make_request_with_retry_200:
  assumes "sends_on method api c" "server env (requests_sent api) = Response 200 (Some doc)"
  shows "make_request_with_retry env cfg url method api
     = (Some doc, emit (Sent (upper method) (ident c) url) api)"
  by (simp only: make_request_with_retry_loop [OF assms(1)] retry_loop_200 [OF assms])

lemma scan_fixtures_none:
  "\<forall>f \<in> set fs. \<not> involves f team_id gameweek \<Longrightarrow> scan_fixtures fs team_id gameweek = PyInt 3"
  by (induction fs) (auto simp: involves_def in_gameweek_def home_side_def away_side_def)

lemma scan_fixtures_first:
  assumes "\<forall>g \<in> set pre. \<not> involves g team_id gameweek" "in_gameweek f gameweek"
  shows "scan_fixtures (pre @ f # post) team_id gameweek
     = (if home_side f team_id then dict_get_or f ''team_h_difficulty'' (PyInt 3)
        else if away_side f team_id then dict_get_or f ''team_a_difficulty'' (PyInt 3)
        else scan_fixtures post team_id gameweek)"
  using assms
  by (induction pre) (auto simp: involves_def in_gameweek_def home_side_def away_side_def)

lemma get_fixture_difficulty_scan:
  "get_fixtures env cfg api = (Some fs, api1) \<Longrightarrow>
   get_fixture_difficulty env cfg team_id gameweek api = (scan_fixtures fs team_id gameweek, api1)"
  by (cases fs) (simp_all add: get_fixture_difficulty_def)

text \<open>
  C7 (as the code has it). \<^verbatim>\<open>get_fixture_difficulty\<close> returns 3 when the fixture list
  could not be fetched and when no fixture of the list has the team playing in the
  gameweek. Otherwise the first fixture of the list in which the team plays in that
  gameweek decides: the result is its home difficulty when the team is its home side and
  its away difficulty when the team is (only) its away side, with 3 standing in for a
  difficulty key that is absent. A later fixture of the same team in the same gameweek is
  never looked at.
\<close>

theorem fixture_difficulty:
  assumes "get_fixtures env cfg api = (fixtures, api1)"
  shows "(fixtures = None \<longrightarrow>
            get_fixture_difficulty env cfg team_id gameweek api = (PyInt 3, api1)) \<and>
         (\<forall>fs. fixtures = Some fs \<and> (\<forall>f \<in> set fs. \<not> involves f team_id gameweek) \<longrightarrow>
            get_fixture_difficulty env cfg team_id gameweek api = (PyInt 3, api1)) \<and>
         (\<forall>pre f post.
            fixtures = Some (pre @ f # post) \<and>
            (\<forall>g \<in> set pre. \<not> involves g team_id gameweek) \<and>
            in_gameweek f gameweek \<and> home_side f team_id \<longrightarrow>
            get_fixture_difficulty env cfg team_id gameweek api
            = (dict_get_or f ''team_h_difficulty'' (PyInt 3), api1)) \<and>
         (\<forall>pre f post.
            fixtures = Some (pre @ f # post) \<and>
            (\<forall>g \<in> set pre. \<not> involves g team_id gameweek) \<and>
            in_gameweek f gameweek \<and> \<not> home_side f team_id \<and> away_side f team_id \<longrightarrow>
            get_fixture_difficulty env cfg team_id gameweek api
            = (dict_get_or f ''team_a_difficulty'' (PyInt 3), api1))"
proof (intro conjI allI impI)
  assume "fixtures = None"
  with assms show "get_fixture_difficulty env cfg team_id gameweek api = (PyInt 3, api1)"
    by (simp add: get_fixture_difficulty_def)
next
  fix fs
  assume "fixtures = Some fs \<and> (\<forall>f \<in> set fs. \<not> involves f team_id gameweek)"
  with assms show "get_fixture_difficulty env cfg team_id gameweek api = (PyInt 3, api1)"
    by (simp add: get_fixture_difficulty_scan scan_fixtures_none)
next
  fix pre f post
  assume "fixtures = Some (pre @ f # post) \<and>
            (\<forall>g \<in> set pre. \<not> involves g team_id gameweek) \<and>
            in_gameweek f gameweek \<and> home_side f team_id"
  with assms show "get_fixture_difficulty env cfg team_id gameweek api
            = (dict_get_or f ''team_h_difficulty'' (PyInt 3), api1)"
    by (simp add: get_fixture_difficulty_scan scan_fixtures_first)
next
  fix pre f post
  assume "fixtures = Some (pre @ f # post) \<and>
            (\<forall>g \<in> set pre. \<not> involves g team_id gameweek) \<and>
            in_gameweek f gameweek \<and> \<not> home_side f team_id \<and> away_side f team_id"
  with assms show "get_fixture_difficulty env cfg team_id gameweek api
            = (dict_get_or f ''team_a_difficulty'' (PyInt 3), api1)"
    by (simp add: get_fixture_difficulty_scan scan_fixtures_first)
qed

lemma get_fixtures_200:
  assumes "sends_on ''GET'' api c" "server env (requests_sent api) = Response 200 (Some fs)"
  shows "get_fixtures env cfg api
     = (Some fs, emit (Sent ''GET'' (ident c) (FPL_BASE_URL @ ''/fixtures/'')) api)"
proof -
  have u: "upper ''GET'' = ''GET''" by code_simp
  show ?thesis
    using make_request_with_retry_200 [OF assms, of cfg "FPL_BASE_URL @ ''/fixtures/''"] u
    by (simp add: get_fixtures_def)
qed

theorem fixture_difficulty_witness:
  "get_fixture_difficulty serves_fixtures example_settings (PyInt 1) (PyInt 1) entered
   = (PyInt 2, emit (Sent ''GET'' 0 (FPL_BASE_URL @ ''/fixtures/'')) entered) \<and>
   get_fixture_difficulty serves_fixtures example_settings (PyInt 2) (PyInt 1) entered
   = (PyInt 4, emit (Sent ''GET'' 0 (FPL_BASE_URL @ ''/fixtures/'')) entered) \<and>
   get_fixture_difficulty serves_fixtures example_settings (PyInt 5) (PyInt 1) entered
   = (PyInt 3, emit (Sent ''GET'' 0 (FPL_BASE_URL @ ''/fixtures/'')) entered) \<and>
   \<not> involves fixture_2_v_1 (PyInt 3) (PyInt 1) \<and>
   in_gameweek fixture_1_v_3 (PyInt 1) \<and> \<not> home_side fixture_1_v_3 (PyInt 3) \<and>
   away_side fixture_1_v_3 (PyInt 3) \<and>
   get_fixture_difficulty serves_double_gameweek example_settings (PyInt 3) (PyInt 1) entered
   = (PyInt 5, emit (Sent ''GET'' 0 (FPL_BASE_URL @ ''/fixtures/'')) entered) \<and>
   get_fixture_difficulty serves_double_gameweek example_settings (PyInt 1) (PyInt 1) entered
   = (PyInt 4, emit (Sent ''GET'' 0 (FPL_BASE_URL @ ''/fixtures/'')) entered)"
proof -
  let ?api1 = "emit (Sent ''GET'' 0 (FPL_BASE_URL @ ''/fixtures/'')) entered"
  have h: "sends_on ''GET'' entered user_agent" by code_simp
  have g: "get_fixtures serves_fixtures example_settings entered = (Some test_fixtures, ?api1)"
    using get_fixtures_200 [OF h, of serves_fixtures test_fixtures example_settings]
    by (simp add: serves_fixtures_def user_agent_def)
  have g2: "get_fixtures serves_double_gameweek example_settings entered
      = (Some double_gameweek, ?api1)"
    using get_fixtures_200 [OF h, of serves_double_gameweek double_gameweek example_settings]
    by (simp add: serves_double_gameweek_def user_agent_def)
  note t = fixture_difficulty [OF g]
  note t2 = fixture_difficulty [OF g2]
  have l: "test_fixtures = [] @ fixture_1_v_2 # [fixture_3_v_4]"
    by (simp add: test_fixtures_def)
  have l2: "double_gameweek = [fixture_2_v_1] @ fixture_1_v_3 # []"
      "double_gameweek = [] @ fixture_2_v_1 # [fixture_1_v_3]"
    by (simp_all add: double_gameweek_def)
  have e [simp]: "number (PyInt i) = number (PyInt j) \<longleftrightarrow> i = j" for i j
    by simp
  have home: "in_gameweek fixture_1_v_2 (PyInt 1) \<and> home_side fixture_1_v_2 (PyInt 1)"
    by (simp add: in_gameweek_def home_side_def py_eq_def dict_get_def fixture_1_v_2_def)
  have away: "in_gameweek fixture_1_v_2 (PyInt 1) \<and> \<not> home_side fixture_1_v_2 (PyInt 2) \<and>
      away_side fixture_1_v_2 (PyInt 2)"
    by (simp add: in_gameweek_def home_side_def away_side_def py_eq_def dict_get_def
        fixture_1_v_2_def)
  have none: "\<forall>f \<in> set test_fixtures. \<not> involves f (PyInt 5) (PyInt 1)"
    by (simp add: involves_def in_gameweek_def home_side_def away_side_def py_eq_def
        dict_get_def test_fixtures_def fixture_1_v_2_def fixture_3_v_4_def)
  have before: "\<not> involves fixture_2_v_1 (PyInt 3) (PyInt 1)"
    by (simp add: involves_def in_gameweek_def home_side_def away_side_def py_eq_def
        dict_get_def fixture_2_v_1_def)
  have later: "in_gameweek fixture_1_v_3 (PyInt 1) \<and> \<not> home_side fixture_1_v_3 (PyInt 3) \<and>
      away_side fixture_1_v_3 (PyInt 3)"
    by (simp add: in_gameweek_def home_side_def away_side_def py_eq_def dict_get_def
        fixture_1_v_3_def)
  have first: "in_gameweek fixture_2_v_1 (PyInt 1) \<and> \<not> home_side fixture_2_v_1 (PyInt 1) \<and>
      away_side fixture_2_v_1 (PyInt 1)"
    by (simp add: in_gameweek_def home_side_def away_side_def py_eq_def dict_get_def
        fixture_2_v_1_def)
  have a: "get_fixture_difficulty serves_fixtures example_settings (PyInt 1) (PyInt 1) entered
      = (dict_get_or fixture_1_v_2 ''team_h_difficulty'' (PyInt 3), ?api1)"
    using t [of "PyInt 1" "PyInt 1"] l home by (metis empty_iff list.set(1))
  have b: "get_fixture_difficulty serves_fixtures example_settings (PyInt 2) (PyInt 1)
      entered = (dict_get_or fixture_1_v_2 ''team_a_difficulty'' (PyInt 3), ?api1)"
    using t [of "PyInt 2" "PyInt 1"] l away by (metis empty_iff list.set(1))
  have c: "get_fixture_difficulty serves_fixtures example_settings (PyInt 5) (PyInt 1)
      entered = (PyInt 3, ?api1)"
    using t [of "PyInt 5" "PyInt 1"] none by blast
  have p: "\<forall>g \<in> set [fixture_2_v_1]. \<not> involves g (PyInt 3) (PyInt 1)"
    using before by simp
  have d: "get_fixture_difficulty serves_double_gameweek example_settings (PyInt 3) (PyInt 1)
      entered = (dict_get_or fixture_1_v_3 ''team_a_difficulty'' (PyInt 3), ?api1)"
    using t2 [of "PyInt 3" "PyInt 1"] l2(1) later p by blast
  have f: "get_fixture_difficulty serves_double_gameweek example_settings (PyInt 1) (PyInt 1)
      entered = (dict_get_or fixture_2_v_1 ''team_a_difficulty'' (PyInt 3), ?api1)"
    using t2 [of "PyInt 1" "PyInt 1"] l2(2) first by (metis empty_iff list.set(1))
  show ?thesis
    using a b c d f before later
    by (simp add: dict_get_or_def fixture_1_v_2_def fixture_1_v_3_def fixture_2_v_1_def)
qed

text \<open>
  C7 (as the specification words it, for every fixture list) fails on a double gameweek.
  Team 1 is the home side of a fixture of gameweek 1 with home difficulty 2, but an
  earlier fixture of the list has it as the away side with difficulty 4, and 4 is
  returned.
\<close>

theorem double_gameweek_counterexample:
  "in_gameweek fixture_1_v_3 (PyInt 1) \<and> home_side fixture_1_v_3 (PyInt 1) \<and>
   dict_get_or fixture_1_v_3 ''team_h_difficulty'' (PyInt 3) = PyInt 2 \<and>
   get_fixtures serves_double_gameweek example_settings entered
   = (Some [fixture_2_v_1, fixture_1_v_3],
      emit (Sent ''GET'' 0 (FPL_BASE_URL @ ''/fixtures/'')) entered) \<and>
   get_fixture_difficulty serves_double_gameweek example_settings (PyInt 1) (PyInt 1) entered
   = (PyInt 4, emit (Sent ''GET'' 0 (FPL_BASE_URL @ ''/fixtures/'')) entered)"
proof -
  have h: "sends_on ''GET'' entered user_agent" by code_simp
  have g: "get_fixtures serves_double_gameweek example_settings entered
      = (Some [fixture_2_v_1, fixture_1_v_3],
         emit (Sent ''GET'' 0 (FPL_BASE_URL @ ''/fixtures/'')) entered)"
    using get_fixtures_200 [OF h, of serves_double_gameweek double_gameweek example_settings]
    by (simp add: serves_double_gameweek_def double_gameweek_def user_agent_def)
  have e [simp]: "number (PyInt i) = number (PyInt j) \<longleftrightarrow> i = j" for i j
    by simp
  have s: "scan_fixtures [fixture_2_v_1, fixture_1_v_3] (PyInt 1) (PyInt 1) = PyInt 4"
    by (simp add: py_eq_def dict_get_def dict_get_or_def fixture_2_v_1_def)
  have d: "get_fixture_difficulty serves_double_gameweek example_settings (PyInt 1) (PyInt 1)
      entered = (PyInt 4, emit (Sent ''GET'' 0 (FPL_BASE_URL @ ''/fixtures/'')) entered)"
    using get_fixture_difficulty_scan [OF g, of "PyInt 1" "PyInt 1"] s by simp
  have f: "in_gameweek fixture_1_v_3 (PyInt 1) \<and> home_side fixture_1_v_3 (PyInt 1) \<and>
      dict_get_or fixture_1_v_3 ''team_h_difficulty'' (PyInt 3) = PyInt 2"
    by (simp add: in_gameweek_def home_side_def py_eq_def dict_get_def dict_get_or_def
        fixture_1_v_3_def)
  show ?thesis using f g d by blast
qed

subsection \<open>The predictor\<close>

lemma gt_zero_non_negative:
  "number v = Some x \<Longrightarrow> gt_zero x \<Longrightarrow> non_negative v"
  by (cases x) (simp_all add: non_negative_def)

lemma non_negative_zero: "non_negative (PyInt 0)"
  by (simp add: non_negative_def)

lemma max_zero_non_negative: "max_zero v = Inr w \<Longrightarrow> non_negative w"
  by (auto simp: max_zero_def py_gt_zero_def non_negative_zero
      split: option.splits if_splits intro: gt_zero_non_negative)

lemma max_zero_returns: "number v \<noteq> None \<Longrightarrow> \<exists>w. max_zero v = Inr w"
  by (auto simp: max_zero_def py_gt_zero_def)

lemma try_predict_non_negative:
  "try_predict self player_stats opponent_difficulty = Inr v \<Longrightarrow> non_negative v"
  unfolding try_predict_def
  by (auto split: sum.splits if_splits dest: max_zero_non_negative)

lemma form_number:
  "numeric_or_absent player_stats ''form'' \<Longrightarrow>
   number (dict_get_or player_stats ''form'' (PyInt 0)) \<noteq> None"
  by (auto simp: numeric_or_absent_def dict_get_or_def split: option.splits)

text \<open>
  C10 (as the code has it). Whatever the statistics, the difficulty and the state of the
  model (untrained, trained, raising, answering NaN or an infinity), every value that
  \<^verbatim>\<open>predict_performance\<close> returns is a number that is at least 0: each \<^verbatim>\<open>return\<close> goes
  through \<^verbatim>\<open>max(0, ...)\<close>, which gives its first argument 0 unless the other one is
  greater. And it does return a value whenever the \<^verbatim>\<open>form\<close> entry of the statistics is
  absent or a number and, for the untrained predictor, is not an int beyond the range of
  a float (the untrained fallback multiplies it by the float 1.2).
\<close>

theorem predict_performance_non_negative:
  "(\<forall>v. predict_performance self player_stats opponent_difficulty = Inr v \<longrightarrow> non_negative v) \<and>
   (numeric_or_absent player_stats ''form'' \<and>
    (is_trained self \<or> \<not> overflows (dict_get_or player_stats ''form'' (PyInt 0))) \<longrightarrow>
      (\<exists>v. predict_performance self player_stats opponent_difficulty = Inr v \<and>
           non_negative v))"
proof -
  let ?form = "dict_get_or player_stats ''form'' (PyInt 0)"
  have sound: "non_negative v"
    if "predict_performance self player_stats opponent_difficulty = Inr v" for v
  proof (cases "is_trained self")
    case False
    with that show ?thesis
      by (auto simp: predict_performance_def split: sum.splits dest: max_zero_non_negative)
  next
    case True
    with that show ?thesis
      by (auto simp: predict_performance_def split: sum.splits
          dest: max_zero_non_negative try_predict_non_negative)
  qed
  have returns: "\<exists>v. predict_performance self player_stats opponent_difficulty = Inr v"
    if "numeric_or_absent player_stats ''form''" and "is_trained self \<or> \<not> overflows ?form"
  proof -
    have n: "number ?form \<noteq> None" using that(1) by (rule form_number)
    then obtain x where x: "number ?form = Some x" by auto
    show ?thesis
    proof (cases "is_trained self")
      case False
      then have "\<not> overflows ?form" using that(2) by simp
      then have "py_times ?form (12 / 10) = Inr (PyFloat (float_times x (12 / 10)))"
        using x by (simp add: py_times_def)
      moreover have "\<exists>w. max_zero (PyFloat (float_times x (12 / 10))) = Inr w"
        by (rule max_zero_returns) simp
      ultimately show ?thesis
        using False by (auto simp: predict_performance_def)
    next
      case True
      show ?thesis
        using True max_zero_returns [OF n]
        by (auto simp: predict_performance_def split: sum.splits)
    qed
  qed
  show ?thesis using sound returns by blast
qed

theorem predict_performance_non_negative_witness:
  "numeric_or_absent test_stats ''form'' \<and>
   \<not> overflows (dict_get_or test_stats ''form'' (PyInt 0)) \<and>
   predict_performance fitted test_stats (PyInt 3) = Inr (PyFloat (Finite (85 / 10))) \<and>
   non_negative (PyFloat (Finite (85 / 10))) \<and>
   predict_performance untrained test_stats (PyInt 3) = Inr (PyFloat (Finite 9)) \<and>
   non_negative (PyFloat (Finite 9))"
proof -
  have n: "numeric_or_absent test_stats ''form''"
    by (simp add: numeric_or_absent_def test_stats_def)
  have o: "\<not> overflows (dict_get_or test_stats ''form'' (PyInt 0))"
    by (simp add: dict_get_or_def test_stats_def)
  have e: "predict_performance fitted test_stats (PyInt 3) = Inr (PyFloat (Finite (85 / 10)))"
    by code_simp
  have f: "predict_performance untrained test_stats (PyInt 3) = Inr (PyFloat (Finite 9))"
    by code_simp
  show ?thesis
    using n o e f predict_performance_non_negative [of fitted test_stats "PyInt 3"]
      predict_performance_non_negative [of untrained test_stats "PyInt 3"]
    by blast
qed

text \<open>
  C10 (as the claim words it, for every dictionary) fails: with a \<^verbatim>\<open>form\<close> entry that is
  a string, the untrained fallback \<^verbatim>\<open>player_stats.get('form', 0) * 1.2\<close> raises a
  TypeError, outside any \<^verbatim>\<open>try\<close>, and no value is returned.
\<close>

theorem string_form_counterexample:
  "predict_performance untrained string_form (PyInt 3) = Inl TypeError"
  by code_simp

text \<open>
  The same fallback raises an OverflowError on an int that does not convert to a float;
  the trained predictor falls back to \<^verbatim>\<open>max(0, form)\<close> there and returns the int.
\<close>

lemma huge_form_overflows:
  "predict_performance untrained huge_form (PyInt 3) = Inl OverflowError"
  by code_simp

lemma huge_form_trained:
  "predict_performance fitted huge_form (PyInt 3) = Inr (PyInt (10 ^ 400))"
  by code_simp

subsection \<open>The transfer engine\<close>

text \<open>
  C4. A player is available exactly when the status code is none of injured, suspended and
  unavailable, and the chance of playing the next round is absent or at least 75. So a
  player is available with the status absent (and the chance absent or at least 75) and
  with the chance absent (and the status available or doubtful), and is not available
  with the status injured, whatever the chance, nor with a chance below 75, whatever the
  status.
\<close>

theorem player_availability:
  "(is_player_available p \<longleftrightarrow>
      status p \<notin> {Some injured, Some suspended, Some unavailable} \<and>
      (case chance_of_playing_next_round p of None \<Rightarrow> True | Some chance \<Rightarrow> 75 \<le> chance)) \<and>
   (status p = None \<and> chance_of_playing_next_round p = None \<longrightarrow> is_player_available p) \<and>
   (\<forall>chance. status p = None \<and> chance_of_playing_next_round p = Some chance \<and> 75 \<le> chance \<longrightarrow>
      is_player_available p) \<and>
   (status p \<in> {Some available, Some doubtful} \<and> chance_of_playing_next_round p = None \<longrightarrow>
      is_player_available p) \<and>
   (status p = Some injured \<longrightarrow> \<not> is_player_available p) \<and>
   (\<forall>chance. chance_of_playing_next_round p = Some chance \<and> chance < 75 \<longrightarrow>
      \<not> is_player_available p)"
  by (cases "status p"; cases "chance_of_playing_next_round p")
     (auto simp: is_player_available_def Let_def)

theorem player_availability_witness:
  "is_player_available test_player \<and>
   is_player_available (test_player\<lparr>status := None\<rparr>) \<and>
   is_player_available (test_player\<lparr>chance_of_playing_next_round := None\<rparr>) \<and>
   \<not> is_player_available
       (test_player\<lparr>status := Some injured, chance_of_playing_next_round := Some 0\<rparr>) \<and>
   \<not> is_player_available (test_player\<lparr>chance_of_playing_next_round := Some 50\<rparr>)"
  using player_availability [of test_player]
    player_availability [of "test_player\<lparr>status := None\<rparr>"]
    player_availability [of "test_player\<lparr>chance_of_playing_next_round := None\<rparr>"]
    player_availability
      [of "test_player\<lparr>status := Some injured, chance_of_playing_next_round := Some 0\<rparr>"]
    player_availability [of "test_player\<lparr>chance_of_playing_next_round := Some 50\<rparr>"]
  by (simp add: test_player_def)

text \<open>
  C5. The value of a player is the expected points divided by a tenth of the price, and 0
  when the price is 0: the division is never reached with a zero divisor, so the result is
  never the division fault. A price of 50 with 10 expected points gives 2.
\<close>

theorem player_value:
  "calculate_player_value expected_points p difficulty
   = Inr (if now_cost p = 0 then 0
          else expected_points p difficulty / (real_of_int (now_cost p) / 10)) \<and>
   (now_cost p = 0 \<longrightarrow> calculate_player_value expected_points p difficulty = Inr 0) \<and>
   (now_cost p = 50 \<and> expected_points p difficulty = 10 \<longrightarrow>
      calculate_player_value expected_points p difficulty = Inr 2)"
  by (simp add: calculate_player_value_def true_div_def Let_def)

theorem player_value_witness:
  "calculate_player_value (\<lambda>p difficulty. 10) test_player 3 = Inr 2 \<and>
   calculate_player_value (\<lambda>p difficulty. 10) (test_player\<lparr>now_cost := 0\<rparr>) 3 = Inr 0"
  using player_value [of "\<lambda>p difficulty. 10" test_player 3]
    player_value [of "\<lambda>p difficulty. 10" "test_player\<lparr>now_cost := 0\<rparr>" 3]
  by (simp add: test_player_def)

lemma recent_average_last_three:
  "recent_average (older @ [a, b, c]) = real_of_int (a + b + c) / 3"
  by (simp add: recent_average_def)

lemma difficulty_multiplier_3: "difficulty_multiplier other 3 = 12 / 10"
  by (simp add: difficulty_multiplier_def difficulty_multipliers_def)

text \<open>
  C6. With an untrained predictor, and with a trained predictor that reports an infinity or
  NaN, the expected points are the average of the last three total points of the history
  (0 for an empty history) times the multiplier of the difficulty, and difficulty 3 has
  the multiplier 1.2. A history ending in \<open>a, b, c\<close> has the average \<open>(a + b + c) / 3\<close>;
  the history 5, 7, 3 at difficulty 3 gives 6.
\<close>

theorem expected_points_fallback:
  "(\<not> is_trained ml_predictor \<or> \<not> is_finite (predict p difficulty) \<longrightarrow>
      calculate_expected_points ml_predictor predict other p difficulty
      = recent_average (history p) * difficulty_multiplier other difficulty) \<and>
   (\<forall>older a b c. history p = older @ [a, b, c] \<longrightarrow>
      recent_average (history p) = real_of_int (a + b + c) / 3) \<and>
   (history p = [] \<longrightarrow> recent_average (history p) = 0) \<and>
   difficulty_multiplier other 3 = 12 / 10 \<and>
   (\<not> is_trained ml_predictor \<and> history p = [5, 7, 3] \<longrightarrow>
      calculate_expected_points ml_predictor predict other p 3 = 6) \<and>
   (\<not> is_trained ml_predictor \<and> history p = [] \<longrightarrow>
      calculate_expected_points ml_predictor predict other p difficulty = 0)"
proof -
  have fallback: "calculate_expected_points ml_predictor predict other p d
      = recent_average (history p) * difficulty_multiplier other d"
    if "\<not> is_trained ml_predictor \<or> \<not> is_finite (predict p d)" for d
    using that
    by (cases "predict p d")
       (auto simp: calculate_expected_points_def fallback_points_def)
  have three: "recent_average [5, 7, 3] = 5"
    using recent_average_last_three [of "[]" 5 7 3] by simp
  have none: "recent_average [] = 0"
    by (simp add: recent_average_def)
  show ?thesis
    using fallback three none
    by (auto simp: recent_average_last_three difficulty_multiplier_3)
qed

theorem expected_points_fallback_witness:
  "\<not> is_trained untrained \<and> history test_player = [5, 7, 3] \<and>
   calculate_expected_points untrained (\<lambda>p difficulty. NaN) 1 test_player 3 = 6 \<and>
   \<not> is_finite PosInf \<and>
   calculate_expected_points fitted (\<lambda>p difficulty. PosInf) 1 test_player 3 = 6 \<and>
   calculate_expected_points untrained (\<lambda>p difficulty. NaN) 1 (test_player\<lparr>history := []\<rparr>) 3
   = 0"
proof -
  have u: "\<not> is_trained untrained" by (simp add: untrained_def)
  have h: "history test_player = [5, 7, 3]" by (simp add: test_player_def)
  have a: "calculate_expected_points untrained (\<lambda>p difficulty. NaN) 1 test_player 3 = 6"
    using expected_points_fallback [of untrained "\<lambda>p difficulty. NaN" test_player 3 1] u h
    by blast
  have b: "calculate_expected_points fitted (\<lambda>p difficulty. PosInf) 1 test_player 3 = 6"
    using expected_points_fallback [of fitted "\<lambda>p difficulty. PosInf" test_player 3 1]
      expected_points_fallback [of untrained "\<lambda>p difficulty. NaN" test_player 3 1] u h a
    by simp
  have c: "calculate_expected_points untrained (\<lambda>p difficulty. NaN) 1
      (test_player\<lparr>history := []\<rparr>) 3 = 0"
    using expected_points_fallback
      [of untrained "\<lambda>p difficulty. NaN" "test_player\<lparr>history := []\<rparr>" 3 1] u
    by simp
  show ?thesis using u h a b c by simp
qed

text \<open>
  C8. Without a fault, recording a transfer makes exactly one \<^verbatim>\<open>add\<close> and one
  \<^verbatim>\<open>commit\<close>, no \<^verbatim>\<open>rollback\<close>, and the record is committed. When \<^verbatim>\<open>add\<close> faults there is
  exactly one \<^verbatim>\<open>rollback\<close> and no \<^verbatim>\<open>commit\<close>, nothing is committed, and one error is
  logged. A fault of \<^verbatim>\<open>commit\<close> is rolled back and logged in the same way. In every case
  the operation returns the store and the log to its caller.
\<close>

theorem transfer_recording:
  "(\<not> add_faults faults \<and> \<not> commit_faults faults \<longrightarrow>
      record_transfer faults r (db, messages)
      = (db\<lparr>committed := committed db @ pending db @ [r], pending := [],
             calls := calls db @ [Add r, Commit]\<rparr>, messages)) \<and>
   (add_faults faults \<longrightarrow>
      record_transfer faults r (db, messages)
      = (db\<lparr>pending := [], calls := calls db @ [Add r, Rollback]\<rparr>,
         messages @ [''Error recording transfer''])) \<and>
   (\<not> add_faults faults \<and> commit_faults faults \<longrightarrow>
      record_transfer faults r (db, messages)
      = (db\<lparr>pending := [], calls := calls db @ [Add r, Commit, Rollback]\<rparr>,
         messages @ [''Error recording transfer'']))"
  by (simp add: record_transfer_def db_add_def db_commit_def db_rollback_def Let_def)

theorem transfer_recording_witness:
  "record_transfer no_faults test_transfer (empty_store, [])
   = (\<lparr>committed = [test_transfer], pending = [], calls = [Add test_transfer, Commit]\<rparr>, []) \<and>
   record_transfer add_fails test_transfer (empty_store, [])
   = (\<lparr>committed = [], pending = [], calls = [Add test_transfer, Rollback]\<rparr>,
      [''Error recording transfer''])"
  using transfer_recording [of no_faults test_transfer empty_store "[]"]
    transfer_recording [of add_fails test_transfer empty_store "[]"]
  by (simp add: no_faults_def add_fails_def empty_store_def)

end
